theory Spec2Isabelle
  imports Main "HOL-Library.Sublist"
begin

section \<open>Name service of the wallet extension: a shallow embedding\<close>

text \<open>
  The development follows \<^verbatim>\<open>background/services/name\<close>: the three resolver strategies
  (\<^verbatim>\<open>utils.ts\<close>), the class \<^verbatim>\<open>NameService\<close> with \<^verbatim>\<open>lookUpEthereumAddress\<close>,
  \<^verbatim>\<open>lookUpName\<close> and \<^verbatim>\<open>lookUpAvatar\<close>, the gateway rewriter
  \<^verbatim>\<open>storageGatewayURL\<close>, and the two accessors of \<^verbatim>\<open>PreferenceService\<close> the
  resolvers read.

  Conventions. JavaScript strings are \<^typ>\<open>string\<close>; \<^verbatim>\<open>undefined\<close> and \<^verbatim>\<open>null\<close> are
  \<^term>\<open>None\<close>; a plain object used as a dictionary is the map of the values read at its
  keys, together with the keys it inherits from its prototype; a promise is the value it
  settles to; an \<^verbatim>\<open>async\<close> method of the service returns its outcome
  together with the service after the call. \<^verbatim>\<open>Date.now()\<close> is an argument. Two fields of the
  service are observers that the source does not have: \<open>emitted\<close> lists the events handed to
  the emitter, \<open>calls\<close> lists the strategies the service invoked and the provider calls it
  made itself. The subscribers of the emitter run as calls of their own and are not part
  of the call that emits.
\<close>

subsection \<open>Strings and regular expressions\<close>

definition inClass :: "char \<Rightarrow> (char \<times> char) list \<Rightarrow> bool" where
  \<comment> \<open>membership in a character class given by its ranges, as in \<^verbatim>\<open>[a-zA-Z0-9]\<close>\<close>
  "inClass c rs =
     list_ex (\<lambda>(lo, hi). (of_char lo :: nat) \<le> of_char c \<and> (of_char c :: nat) \<le> of_char hi) rs"

definition toLowerCaseChar :: "char \<Rightarrow> char" where
  "toLowerCaseChar c =
     (if inClass c [(CHR ''A'', CHR ''Z'')] then char_of (of_char c + (32 :: nat)) else c)"

definition toLowerCase :: "string \<Rightarrow> string" where
  \<comment> \<open>\<^verbatim>\<open>String.prototype.toLowerCase\<close> on the ASCII letters\<close>
  "toLowerCase s = map toLowerCaseChar s"

definition lineTerminator :: "char \<Rightarrow> bool" where
  "lineTerminator c = (c = CHR 0x0A \<or> c = CHR 0x0D)"

datatype regexp =
    Never
  | Empty
  | Chr char
  | Class "(char \<times> char) list"
  | AnyChar
  | Cat regexp regexp
  | Or regexp regexp
  | Many regexp
  | Between regexp nat nat

text \<open>
  The regular expressions of the source are written as data and run by derivatives:
  \<open>Chr\<close> is a literal character, \<open>Class\<close> a bracket class, \<open>AnyChar\<close> the dot
  (any character but a line terminator), \<open>Cat\<close> concatenation, \<open>Many r\<close> is \<^verbatim>\<open>r*\<close>
  and \<open>Between r m n\<close> is \<^verbatim>\<open>r{m,n}\<close>. \<open>Never\<close>, \<open>Empty\<close> and \<open>Or\<close> arise as
  derivatives.
\<close>

fun nullable :: "regexp \<Rightarrow> bool" where
  "nullable Never = False"
| "nullable Empty = True"
| "nullable (Chr a) = False"
| "nullable (Class rs) = False"
| "nullable AnyChar = False"
| "nullable (Cat r s) = (nullable r \<and> nullable s)"
| "nullable (Or r s) = (nullable r \<or> nullable s)"
| "nullable (Many r) = True"
| "nullable (Between r m n) = (m = 0 \<or> nullable r)"

fun deriv :: "char \<Rightarrow> regexp \<Rightarrow> regexp" where
  "deriv c Never = Never"
| "deriv c Empty = Never"
| "deriv c (Chr a) = (if c = a then Empty else Never)"
| "deriv c (Class rs) = (if inClass c rs then Empty else Never)"
| "deriv c AnyChar = (if lineTerminator c then Never else Empty)"
| "deriv c (Cat r s) =
     (if nullable r then Or (Cat (deriv c r) s) (deriv c s) else Cat (deriv c r) s)"
| "deriv c (Or r s) = Or (deriv c r) (deriv c s)"
| "deriv c (Many r) = Cat (deriv c r) (Many r)"
| "deriv c (Between r m n) =
     (if n = 0 then Never else Cat (deriv c r) (Between r (m - 1) (n - 1)))"

fun matchesAll :: "regexp \<Rightarrow> string \<Rightarrow> bool" where
  \<comment> \<open>the whole string is a match\<close>
  "matchesAll r [] = nullable r"
| "matchesAll r (c # cs) = matchesAll (deriv c r) cs"

fun matchesPrefix :: "regexp \<Rightarrow> string \<Rightarrow> bool" where
  \<comment> \<open>some prefix of the string is a match\<close>
  "matchesPrefix r [] = nullable r"
| "matchesPrefix r (c # cs) = (nullable r \<or> matchesPrefix (deriv c r) cs)"

record regex =
  caret :: bool
  pattern :: regexp
  dollar :: bool

text \<open>
  A regular-expression literal without flags: \<open>caret\<close> and \<open>dollar\<close> say whether it
  starts with \<^verbatim>\<open>^\<close> and ends with \<^verbatim>\<open>$\<close>. \<^verbatim>\<open>s.match(re)\<close> is used by the source only as
  a truth value: it is truthy when the pattern matches at some start position.
\<close>

definition matchAt :: "regex \<Rightarrow> string \<Rightarrow> bool" where
  "matchAt re s =
     (if dollar re then matchesAll (pattern re) s else matchesPrefix (pattern re) s)"

definition regex_test :: "regex \<Rightarrow> string \<Rightarrow> bool" where
  "regex_test re s =
     (if caret re then matchAt re s
      else list_ex (\<lambda>i. matchAt re (drop i s)) [0..<Suc (length s)])"

fun chars :: "string \<Rightarrow> regexp" where
  "chars [] = Empty"
| "chars (c # cs) = Cat (Chr c) (chars cs)"

definition alnum :: "(char \<times> char) list" where
  \<comment> \<open>\<^verbatim>\<open>[a-zA-Z0-9]\<close>\<close>
  "alnum = [(CHR ''a'', CHR ''z''), (CHR ''A'', CHR ''Z''), (CHR ''0'', CHR ''9'')]"

definition alnumDash :: "(char \<times> char) list" where
  \<comment> \<open>\<^verbatim>\<open>[a-zA-Z0-9-]\<close>\<close>
  "alnumDash = alnum @ [(CHR ''-'', CHR ''-'')]"

definition split_on :: "(char \<Rightarrow> bool) \<Rightarrow> string \<Rightarrow> string list" where
  \<comment> \<open>\<^verbatim>\<open>s.split(/[...]/)\<close> for a one-character separator class: the pieces between
      separators, empty pieces kept\<close>
  "split_on sep s =
     foldr (\<lambda>c ps. if sep c then [] # ps else (case ps of [] \<Rightarrow> [[c]] | p # ps' \<Rightarrow> (c # p) # ps'))
       s [[]]"

definition nth_opt :: "'a list \<Rightarrow> nat \<Rightarrow> 'a option" where
  \<comment> \<open>reading an array at an index: \<^verbatim>\<open>undefined\<close> beyond its end\<close>
  "nth_opt xs i = (if i < length xs then Some (xs ! i) else None)"

subsection \<open>Errors, promises and outcomes\<close>

datatype error = Error string | TypeError string | SyntaxError string

datatype 'a settled = Fulfilled 'a | Rejected error

datatype 'a outcome = Returned 'a | Threw error | Unsettled

text \<open>
  \<open>settled\<close> is the state a promise ends in. \<open>outcome\<close> is what awaiting a method of the
  service gives: a value, a rejection, or nothing when the method waits for a promise that
  never settles (\<open>Unsettled\<close>). A strategy may never settle; the calls that the service
  makes to the provider itself are taken to settle.
\<close>

definition slotStep :: "'a settled list \<Rightarrow> nat \<Rightarrow> 'a settled option list \<Rightarrow> 'a settled option list" where
  "slotStep promises i slots =
     (if i < length slots \<and> slots ! i = None then slots[i := Some (promises ! i)] else slots)"

definition allSettled :: "nat list \<Rightarrow> 'a settled list \<Rightarrow> 'a settled list option" where
  \<comment> \<open>\<^verbatim>\<open>Promise.allSettled\<close>: the promises settle in the order \<open>completion\<close> lists their
      indices; each result is written to the slot of its promise; the combined promise
      fulfils with the slots, in the order of the input, once every slot is written\<close>
  "allSettled completion promises =
     those (fold (slotStep promises) completion (replicate (length promises) None))"

subsection \<open>Data model (\<^verbatim>\<open>utils.ts\<close>)\<close>

type_synonym HexString = string
type_synonym DomainName = string
type_synonym UNIXTime = int

record EVMNetwork =
  chainID :: string

record AddressOnNetwork =
  address :: HexString
  network :: EVMNetwork

datatype NameResolverSystem = ENS | UNS | AddressBook | KnownContracts

record ResolvedNameRecord =
  from_addressNetwork :: AddressOnNetwork
  resolved_name :: DomainName
  resolved_expiresAt :: UNIXTime
  system :: NameResolverSystem

record ResolvedAddressRecord =
  addr_from_name :: DomainName
  addr_resolved_addressNetwork :: AddressOnNetwork
  addr_system :: NameResolverSystem

type_synonym NameResolverFunction =
  "UNIXTime \<Rightarrow> AddressOnNetwork \<Rightarrow> ResolvedNameRecord option settled"

text \<open>
  A resolver strategy: the first argument is what \<^verbatim>\<open>Date.now()\<close> returns when the strategy
  builds its record; the result is what the promise of the strategy settles to.
\<close>

text \<open>
  Modelled from the spec: \<^verbatim>\<open>constants\<close> is not among the sources; \<^verbatim>\<open>SECOND\<close> is one second
  in the unit of \<^verbatim>\<open>Date.now()\<close>, milliseconds.
\<close>

definition SECOND :: int where
  "SECOND = 1000"

text \<open>
  Modelled from the spec: \<^verbatim>\<open>constants/networks\<close> is not among the sources; \<^verbatim>\<open>ETHEREUM\<close> is the
  primary network, the one with chain identifier 1.
\<close>

definition ETHEREUM :: EVMNetwork where
  "ETHEREUM = \<lparr> chainID = ''1'' \<rparr>"

text \<open>
  Modelled from the spec: \<^verbatim>\<open>lib/utils\<close> is not among the sources; \<^verbatim>\<open>normalizeEVMAddress\<close>
  gives the canonical form of an address, in which spellings that differ in letter case
  coincide.
\<close>

definition normalizeEVMAddress :: "HexString \<Rightarrow> HexString" where
  "normalizeEVMAddress a = toLowerCase a"

text \<open>
  Modelled from the spec: \<^verbatim>\<open>lib/utils\<close> is not among the sources; \<^verbatim>\<open>sameEVMAddress\<close> says
  whether two addresses are the same account; an absent address is the same as none.
\<close>

definition sameEVMAddress :: "HexString option \<Rightarrow> HexString \<Rightarrow> bool" where
  "sameEVMAddress a b =
     (case a of None \<Rightarrow> False | Some x \<Rightarrow> normalizeEVMAddress x = normalizeEVMAddress b)"

subsection \<open>Plain objects as dictionaries\<close>

definition objectPrototypeKeys :: "string list" where
  \<comment> \<open>the property names of \<^verbatim>\<open>Object.prototype\<close>, which every plain object inherits\<close>
  "objectPrototypeKeys =
     [''constructor'', ''__defineGetter__'', ''__defineSetter__'', ''hasOwnProperty'',
      ''__lookupGetter__'', ''__lookupSetter__'', ''isPrototypeOf'', ''propertyIsEnumerable'',
      ''toString'', ''valueOf'', ''__proto__'', ''toLocaleString'']"

definition recordKeys :: "string list" where
  \<comment> \<open>the property names of a \<^verbatim>\<open>ResolvedNameRecord\<close> object\<close>
  "recordKeys = [''from'', ''resolved'', ''system'']"

text \<open>
  The source keeps its dictionaries in plain objects (\<^verbatim>\<open>{}\<close>). At the keys of
  \<open>objectPrototypeKeys\<close> such an object has inherited properties, which the operator
  \<^verbatim>\<open>in\<close> and a read find, and whose values are functions or objects of the platform. An
  assignment to a key creates or replaces an own property, except at \<^verbatim>\<open>__proto__\<close>, where it
  replaces the prototype of the object by the assigned object; a read of \<^verbatim>\<open>__proto__\<close>
  returns the prototype.
\<close>

subsection \<open>Collaborators: the chain service and the preference service\<close>

record Resolver =
  getAddress :: "HexString option settled"
  getText :: "string \<Rightarrow> string option settled"

record Provider =
  lookupAddress :: "HexString \<Rightarrow> string option settled"
  resolveName :: "DomainName \<Rightarrow> HexString option settled"
  getResolver :: "DomainName \<Rightarrow> Resolver option settled"

record ChainService =
  providerForNetwork :: "EVMNetwork \<Rightarrow> Provider option"
  providers_ethereum :: Provider

record PreferenceService =
  getKnownContractNames :: "string \<rightharpoonup> string"
  getAddressBook :: "string \<rightharpoonup> string"

text \<open>
  The provider capability is outside the repository: each of its calls is given by the
  promise state it ends in. \<open>PreferenceService\<close> has the two accessors the resolvers read,
  each returning its \<^verbatim>\<open>evm\<close> dictionary, given by the display names found at its keys.
  The strategies read the dictionaries at normalised addresses only; no key of
  \<open>objectPrototypeKeys\<close> is a normalised address, and the statements about what the two table
  strategies find for an address assume that its normalised form is none of these keys.
  The class of the repository implements the accessors as follows.
\<close>

definition BUILT_IN_CONTRACT_NAMES :: "string \<rightharpoonup> string" where
  "BUILT_IN_CONTRACT_NAMES =
     [normalizeEVMAddress ''0xDef1C0ded9bec7F1a1670819833240f027b25EfF'' \<mapsto> ''0x Router'']"

definition thePreferenceService :: PreferenceService where
  "thePreferenceService =
     \<lparr> getKnownContractNames = BUILT_IN_CONTRACT_NAMES, getAddressBook = Map.empty \<rparr>"

subsection \<open>Resolver strategies (\<^verbatim>\<open>utils.ts\<close>)\<close>

definition MINIMUM_RECORD_EXPIRY :: int where
  "MINIMUM_RECORD_EXPIRY = 10 * SECOND"

definition label :: regexp where
  \<comment> \<open>\<^verbatim>\<open>[a-zA-Z0-9][a-zA-Z0-9-]{1,62}\<close>\<close>
  "label = Cat (Class alnum) (Between (Class alnumDash) 1 62)"

definition domainNameRegex :: regex where
  \<comment> \<open>\<^verbatim>\<open>/^[a-zA-Z0-9][a-zA-Z0-9-]{1,62}\.([a-zA-Z0-9][a-zA-Z0-9-]{1,62}\.)*[a-zA-Z0-9][a-zA-Z0-9-]{1,62}/\<close>\<close>
  "domainNameRegex =
     \<lparr> caret = True,
       pattern = Cat label (Cat (Chr CHR ''.'') (Cat (Many (Cat label (Chr CHR ''.''))) label)),
       dollar = False \<rparr>"

definition ensAddressResolverFor :: "ChainService \<Rightarrow> NameResolverFunction" where
  "ensAddressResolverFor chainService now aon =
     (case (case providerForNetwork chainService (network aon) of
              None \<Rightarrow> Fulfilled None
            | Some provider \<Rightarrow> lookupAddress provider (address aon)) of
        Rejected e \<Rightarrow> Rejected e
      | Fulfilled None \<Rightarrow> Fulfilled None
      | Fulfilled (Some name) \<Rightarrow>
          if \<not> (length name \<le> 253 \<and> regex_test domainNameRegex name) then Fulfilled None
          else Fulfilled (Some
            \<lparr> from_addressNetwork = \<lparr> address = address aon, network = network aon \<rparr>,
              resolved_name = name,
              resolved_expiresAt = now + MINIMUM_RECORD_EXPIRY,
              system = ENS \<rparr>))"

definition addressBookResolverFor :: "PreferenceService \<Rightarrow> NameResolverFunction" where
  "addressBookResolverFor preferenceService now aon =
     (case getAddressBook preferenceService (normalizeEVMAddress (address aon)) of
        None \<Rightarrow> Fulfilled None
      | Some name \<Rightarrow>
          Fulfilled (Some
            \<lparr> from_addressNetwork = \<lparr> address = address aon, network = network aon \<rparr>,
              resolved_name = name,
              resolved_expiresAt = now + MINIMUM_RECORD_EXPIRY,
              system = AddressBook \<rparr>))"

definition knownContractResolverFor :: "PreferenceService \<Rightarrow> NameResolverFunction" where
  "knownContractResolverFor preferenceService now aon =
     (case getKnownContractNames preferenceService (normalizeEVMAddress (address aon)) of
        None \<Rightarrow> Fulfilled None
      | Some name \<Rightarrow>
          Fulfilled (Some
            \<lparr> from_addressNetwork = \<lparr> address = address aon, network = network aon \<rparr>,
              resolved_name = name,
              resolved_expiresAt = now + MINIMUM_RECORD_EXPIRY,
              system = KnownContracts \<rparr>))"

subsection \<open>URLs and the gateway rewriter (\<^verbatim>\<open>index.ts\<close>)\<close>

record URL =
  scheme :: string
  host :: "string option"
  pathname :: string
  query :: "string option"
  fragment :: "string option"

text \<open>
  The platform's \<^verbatim>\<open>URL\<close> object, reduced to the components the source reads and writes.
  The getters follow the URL standard: \<^verbatim>\<open>protocol\<close> is the scheme followed by a colon,
  \<^verbatim>\<open>hostname\<close> is empty when there is no host, \<^verbatim>\<open>href\<close> is the serialised URL.
\<close>

definition protocol :: "URL \<Rightarrow> string" where
  "protocol u = scheme u @ '':''"

definition hostname :: "URL \<Rightarrow> string" where
  "hostname u = (case host u of None \<Rightarrow> [] | Some h \<Rightarrow> h)"

definition href :: "URL \<Rightarrow> string" where
  "href u =
     protocol u @ (case host u of None \<Rightarrow> [] | Some h \<Rightarrow> ''//'' @ h) @ pathname u
       @ (case query u of None \<Rightarrow> [] | Some q \<Rightarrow> ''?'' @ q)
       @ (case fragment u of None \<Rightarrow> [] | Some f \<Rightarrow> ''#'' @ f)"

definition specialSchemes :: "string list" where
  "specialSchemes = [''ftp'', ''file'', ''http'', ''https'', ''ws'', ''wss'']"

definition isSchemeChar :: "char \<Rightarrow> bool" where
  "isSchemeChar c = (inClass c alnum \<or> c = CHR ''+'' \<or> c = CHR ''-'' \<or> c = CHR ''.'')"

definition isSlash :: "char \<Rightarrow> bool" where
  "isSlash c = (c = CHR ''/'' \<or> c = CHR 0x5C)"

definition cutAt :: "char \<Rightarrow> string \<Rightarrow> string \<times> string option" where
  \<comment> \<open>the part before the first delimiter, and the part after it when there is one\<close>
  "cutAt d s =
     (takeWhile (\<lambda>c. c \<noteq> d) s,
      case dropWhile (\<lambda>c. c \<noteq> d) s of [] \<Rightarrow> None | _ # t \<Rightarrow> Some t)"

definition new_URL :: "string \<Rightarrow> URL option" where
  \<comment> \<open>\<^verbatim>\<open>new URL(input)\<close> without a base; \<open>None\<close> is the \<^verbatim>\<open>TypeError\<close> of an invalid URL\<close>
  "new_URL input =
     (case dropWhile isSchemeChar input of
        [] \<Rightarrow> None
      | c # rest \<Rightarrow>
          let sch = takeWhile isSchemeChar input in
          if c = CHR '':'' \<and>
             (case sch of [] \<Rightarrow> False
              | a # _ \<Rightarrow> inClass a [(CHR ''a'', CHR ''z''), (CHR ''A'', CHR ''Z'')])
          then
            let s = toLowerCase sch;
                (r1, frag) = cutAt CHR ''#'' rest;
                (r2, qry) = cutAt CHR ''?'' r1
            in if s \<in> set specialSchemes then
                 (let auth = dropWhile isSlash r2;
                      h = takeWhile (\<lambda>c. \<not> isSlash c) auth;
                      p = dropWhile (\<lambda>c. \<not> isSlash c) auth
                  in if h = [] then None
                     else Some \<lparr> scheme = s, host = Some (toLowerCase h),
                                 pathname = (if p = [] then ''/'' else p),
                                 query = qry, fragment = frag \<rparr>)
               else if prefix ''//'' r2 then
                 (let auth = drop 2 r2
                  in Some \<lparr> scheme = s, host = Some (takeWhile (\<lambda>c. c \<noteq> CHR ''/'') auth),
                             pathname = dropWhile (\<lambda>c. c \<noteq> CHR ''/'') auth,
                             query = qry, fragment = frag \<rparr>)
               else Some \<lparr> scheme = s, host = None, pathname = r2, query = qry, fragment = frag \<rparr>
          else None)"

text \<open>
  The parser covers the URLs of the name service: a scheme, then for a special scheme
  (\<^verbatim>\<open>https\<close> and the like) a host in lower case and a path that is at least \<^verbatim>\<open>/\<close>, for
  another scheme followed by \<^verbatim>\<open>//\<close> a host kept as written and a path, and otherwise an
  opaque path (\<^verbatim>\<open>eip155:1/erc721:...\<close>, \<^verbatim>\<open>data:...\<close>); then the query and the fragment.
  Credentials, ports, percent-encoding and dot segments are not modelled.
\<close>

definition opaquePath :: "URL \<Rightarrow> bool" where
  "opaquePath u = (host u = None \<and> \<not> prefix ''/'' (pathname u))"

definition set_protocol :: "URL \<Rightarrow> string \<Rightarrow> URL" where
  \<comment> \<open>the setter of \<^verbatim>\<open>protocol\<close>: a URL does not change between a special and another scheme\<close>
  "set_protocol u v =
     (let s = toLowerCase (takeWhile (\<lambda>c. c \<noteq> CHR '':'') v)
      in if (scheme u \<in> set specialSchemes) = (s \<in> set specialSchemes) then u\<lparr>scheme := s\<rparr> else u)"

definition set_hostname :: "URL \<Rightarrow> string \<Rightarrow> URL" where
  "set_hostname u v = (if opaquePath u then u else u\<lparr>host := Some v\<rparr>)"

definition set_pathname :: "URL \<Rightarrow> string \<Rightarrow> URL" where
  "set_pathname u v =
     (if opaquePath u then u
      else u\<lparr>pathname := (if prefix ''/'' v \<or> (v = [] \<and> scheme u \<notin> set specialSchemes) then v else ''/'' @ v)\<rparr>)"

definition ipfsGateway :: URL where
  \<comment> \<open>\<^verbatim>\<open>new URL("https://ipfs.io/ipfs/")\<close>\<close>
  "ipfsGateway =
     \<lparr> scheme = ''https'', host = Some ''ipfs.io'', pathname = ''/ipfs/'', query = None, fragment = None \<rparr>"

definition arweaveGateway :: URL where
  \<comment> \<open>\<^verbatim>\<open>new URL("https://arweave.net/")\<close>\<close>
  "arweaveGateway =
     \<lparr> scheme = ''https'', host = Some ''arweave.net'', pathname = ''/'', query = None, fragment = None \<rparr>"

definition changeURLProtocolAndBase :: "URL \<Rightarrow> URL \<Rightarrow> URL" where
  "changeURLProtocolAndBase url baseURL =
     (let newURL = url;
          newURL = set_protocol newURL (protocol baseURL);
          newURL = set_hostname newURL (hostname baseURL);
          newURL = set_pathname newURL (pathname baseURL @ ''/'' @ hostname url @ ''/'' @ pathname url)
      in newURL)"

definition storageGatewayURL :: "URL \<Rightarrow> URL" where
  "storageGatewayURL url =
     (if protocol url = ''ipfs'' then changeURLProtocolAndBase url ipfsGateway
      else if protocol url = ''ar'' then changeURLProtocolAndBase url arweaveGateway
      else url)"

subsection \<open>Conversion of a string to a big integer\<close>

definition isWhiteSpace :: "char \<Rightarrow> bool" where
  "isWhiteSpace c = (c \<in> set [CHR 0x09, CHR 0x0A, CHR 0x0B, CHR 0x0C, CHR 0x0D, CHR 0x20, CHR 0xA0])"

definition digitOf :: "char \<Rightarrow> nat option" where
  "digitOf c =
     (if inClass c [(CHR ''0'', CHR ''9'')] then Some (of_char c - 48)
      else if inClass c [(CHR ''a'', CHR ''z'')] then Some (of_char c - 87)
      else if inClass c [(CHR ''A'', CHR ''Z'')] then Some (of_char c - 55)
      else None)"

definition parseDigits :: "nat \<Rightarrow> string \<Rightarrow> int option" where
  \<comment> \<open>a non-empty run of digits of the given base\<close>
  "parseDigits b s =
     (if s = [] then None
      else fold (\<lambda>c acc. case (acc, digitOf c) of
                   (Some a, Some d) \<Rightarrow> if d < b then Some (a * int b + int d) else None
                 | _ \<Rightarrow> None) s (Some 0))"

definition BigInt :: "string \<Rightarrow> int option" where
  \<comment> \<open>\<^verbatim>\<open>BigInt(s)\<close> for a string; \<open>None\<close> is the \<^verbatim>\<open>SyntaxError\<close> it throws\<close>
  "BigInt s =
     (let t = rev (dropWhile isWhiteSpace (rev (dropWhile isWhiteSpace s)))
      in case t of
           [] \<Rightarrow> Some 0
         | c # r \<Rightarrow>
             if c = CHR ''0'' \<and> (prefix ''x'' r \<or> prefix ''X'' r) then parseDigits 16 (tl r)
             else if c = CHR ''0'' \<and> (prefix ''o'' r \<or> prefix ''O'' r) then parseDigits 8 (tl r)
             else if c = CHR ''0'' \<and> (prefix ''b'' r \<or> prefix ''B'' r) then parseDigits 2 (tl r)
             else if c = CHR ''+'' then parseDigits 10 r
             else if c = CHR ''-'' then map_option uminus (parseDigits 10 r)
             else parseDigits 10 t)"

text \<open>
  The string grammar of the language for big integers: white space around is dropped, the
  empty string is zero, a literal is a run of decimal digits with an optional sign, or a
  run of hexadecimal, octal or binary digits after \<^verbatim>\<open>0x\<close>, \<^verbatim>\<open>0o\<close>, \<^verbatim>\<open>0b\<close>.
\<close>

subsection \<open>The name service (\<^verbatim>\<open>index.ts\<close>)\<close>

record ResolvedAvatarRecord =
  avatar_from_addressNetwork :: AddressOnNetwork
  avatar_resolved_avatar :: URL
  avatar_system :: NameResolverSystem

datatype Event =
    resolvedAddress ResolvedAddressRecord
  | resolvedName ResolvedNameRecord
  | resolvedAvatar ResolvedAvatarRecord

datatype Call =
    ResolverCall nat AddressOnNetwork
  | ResolveNameCall DomainName
  | GetResolverCall DomainName
  | GetAddressCall DomainName
  | GetTextCall DomainName string
  | GetTokenMetadataCall HexString int

text \<open>
  \<open>ResolverCall i a\<close>: the strategy at position \<open>i\<close> of the list was invoked on \<open>a\<close>.
  The other calls are those of the provider: \<^verbatim>\<open>resolveName\<close>, \<^verbatim>\<open>getResolver\<close>, the
  \<^verbatim>\<open>getAddress\<close> and \<^verbatim>\<open>getText\<close> of the resolver of a name, and the token-metadata fetch
  with the contract address and the token id.
\<close>

record NameService =
  chainService :: ChainService
  preferenceService :: PreferenceService
  cachedEIP155AvatarURLs :: "string \<rightharpoonup> URL"
  cachedResolvedNames :: "string \<rightharpoonup> ResolvedNameRecord"
  addressResolvers :: "NameResolverFunction list"
  emitted :: "Event list"
  calls :: "Call list"

text \<open>
  \<open>cachedResolvedNames\<close> gives, for a key, the record that a read of the cache object at
  that key returns: the value of its own property, or, at the key \<^verbatim>\<open>__proto__\<close>, the record
  that an assignment to that key has made the prototype of the object. So an assignment
  \<^verbatim>\<open>this.cachedResolvedNames[key] = record\<close> is an update of the map at every key. What the
  object inherits besides is told by \<open>inheritedKey\<close>: the keys of \<^verbatim>\<open>Object.prototype\<close>, and
  those of a record once a record is the prototype. The value read at an inherited key that
  holds no record is a function, an object or a string of the platform, none of which has a
  property \<^verbatim>\<open>resolved\<close>. \<open>cachedEIP155AvatarURLs\<close> is read and written only at keys that
  begin with \<^verbatim>\<open>eip155:1/erc721:\<close>, none of which is inherited: it is the map of its own
  properties.
\<close>

definition inheritedKey :: "NameService \<Rightarrow> string \<Rightarrow> bool" where
  \<comment> \<open>the key is a property that the object \<^verbatim>\<open>cachedResolvedNames\<close> inherits\<close>
  "inheritedKey svc key =
     (key \<in> set objectPrototypeKeys
      \<or> (cachedResolvedNames svc ''__proto__'' \<noteq> None \<and> key \<in> set recordKeys))"

definition inCache :: "NameService \<Rightarrow> string \<Rightarrow> bool" where
  \<comment> \<open>\<^verbatim>\<open>key in this.cachedResolvedNames\<close>\<close>
  "inCache svc key = (inheritedKey svc key \<or> cachedResolvedNames svc key \<noteq> None)"

definition NameService_new :: "ChainService \<Rightarrow> PreferenceService \<Rightarrow> NameService" where
  \<comment> \<open>the constructor; its two subscriptions run later, as their own calls of
      \<open>lookUpName\<close> and \<open>lookUpAvatar\<close>\<close>
  "NameService_new cs ps =
     \<lparr> chainService = cs, preferenceService = ps,
       cachedEIP155AvatarURLs = Map.empty, cachedResolvedNames = Map.empty,
       addressResolvers =
         [] @ [ensAddressResolverFor cs, addressBookResolverFor ps, knownContractResolverFor ps],
       emitted = [], calls = [] \<rparr>"

record Schedule =
  clock :: UNIXTime
  resolverClock :: "nat \<Rightarrow> UNIXTime"
  completion :: "nat list"

text \<open>
  What one call of \<open>lookUpName\<close> does not decide itself: \<open>clock\<close> is \<^verbatim>\<open>Date.now()\<close> at
  the cache check, \<open>resolverClock i\<close> is \<^verbatim>\<open>Date.now()\<close> inside the strategy at position
  \<open>i\<close>, and \<open>completion\<close> lists the positions of the strategies in the order in which
  their promises settle (a strategy that is not listed never settles).
\<close>

definition dotEthRegex :: regex where
  \<comment> \<open>\<^verbatim>\<open>/.*\.eth$/\<close>\<close>
  "dotEthRegex = \<lparr> caret = False, pattern = Cat (Many AnyChar) (chars ''.eth''), dollar = True \<rparr>"

definition hexShapeRegex :: regex where
  \<comment> \<open>\<^verbatim>\<open>/^0x[a-zA-Z0-9]*$/\<close>\<close>
  "hexShapeRegex = \<lparr> caret = True, pattern = Cat (chars ''0x'') (Many (Class alnum)), dollar = True \<rparr>"

definition erc721Regex :: regex where
  \<comment> \<open>\<^verbatim>\<open>/^eip155:1\/erc721:/\<close>\<close>
  "erc721Regex = \<lparr> caret = True, pattern = chars ''eip155:1/erc721:'', dollar = False \<rparr>"

definition lookUpEthereumAddress ::
  "NameService \<Rightarrow> DomainName \<Rightarrow> HexString option outcome \<times> NameService" where
  "lookUpEthereumAddress svc name =
     (if \<not> regex_test dotEthRegex name
      then (Threw (Error ''Only .eth names can be resolved today.''), svc)
      else
        let provider = providers_ethereum (chainService svc);
            svc1 = svc\<lparr>calls := calls svc @ [ResolveNameCall name]\<rparr>
        in case resolveName provider name of
             Rejected e \<Rightarrow> (Threw e, svc1)
           | Fulfilled None \<Rightarrow> (Returned None, svc1)
           | Fulfilled (Some addr) \<Rightarrow>
               if addr = [] \<or> \<not> regex_test hexShapeRegex addr then (Returned None, svc1)
               else
                 let normalized = normalizeEVMAddress addr
                 in (Returned (Some normalized),
                     svc1\<lparr>emitted := emitted svc1 @
                       [resolvedAddress
                          \<lparr> addr_from_name = name,
                            addr_resolved_addressNetwork = \<lparr> address = normalized, network = ETHEREUM \<rparr>,
                            addr_system = ENS \<rparr>]\<rparr>))"

definition lookUpName_resolve ::
  "NameService \<Rightarrow> Schedule \<Rightarrow> HexString \<Rightarrow> EVMNetwork \<Rightarrow> DomainName option outcome \<times> NameService" where
  \<comment> \<open>\<open>lookUpName\<close> from \<^verbatim>\<open>Promise.allSettled\<close> on, where both the miss and the expired
      entry continue\<close>
  "lookUpName_resolve svc sch addr net =
     (let aon = \<lparr> address = addr, network = net \<rparr>;
          promises = map (\<lambda>(i, resolver). resolver (resolverClock sch i) aon)
                       (enumerate 0 (addressResolvers svc));
          svc1 = svc\<lparr>calls := calls svc @
                   map (\<lambda>(i, resolver). ResolverCall i aon) (enumerate 0 (addressResolvers svc))\<rparr>
      in case allSettled (completion sch) promises of
           None \<Rightarrow> (Unsettled, svc1)
         | Some attemptedResolutions \<Rightarrow>
             (case List.find (\<lambda>result. result \<noteq> None)
                     (map (\<lambda>result. case result of Fulfilled v \<Rightarrow> v | Rejected e \<Rightarrow> None)
                        attemptedResolutions) of
                None \<Rightarrow> (Returned None, svc1)
              | Some None \<Rightarrow> (Returned None, svc1)
              | Some (Some resolvedNameRecord) \<Rightarrow>
                  let existingName = map_option resolved_name (cachedResolvedNames svc1 addr);
                      svc2 = svc1\<lparr>cachedResolvedNames :=
                               (cachedResolvedNames svc1)(addr \<mapsto> resolvedNameRecord)\<rparr>;
                      svc3 = (if existingName \<noteq> Some (resolved_name resolvedNameRecord)
                              then svc2\<lparr>emitted := emitted svc2 @ [resolvedName resolvedNameRecord]\<rparr>
                              else svc2)
                  in (Returned (Some (resolved_name resolvedNameRecord)), svc3)))"

definition lookUpName ::
  "NameService \<Rightarrow> Schedule \<Rightarrow> HexString \<Rightarrow> EVMNetwork \<Rightarrow> bool
     \<Rightarrow> DomainName option outcome \<times> NameService" where
  "lookUpName svc sch addr net checkCache =
     (if chainID net \<noteq> ''1'' then (Threw (Error ''Only Ethereum mainnet is supported.''), svc)
      else if checkCache \<and> inCache svc addr then
        (case cachedResolvedNames svc addr of
           None \<Rightarrow>
             \<comment> \<open>an inherited key: the value read has no \<^verbatim>\<open>resolved\<close>, and destructuring
                 \<^verbatim>\<open>{ name, expiresAt }\<close> from \<^verbatim>\<open>undefined\<close> throws\<close>
             (Threw (TypeError ''Cannot destructure property of undefined''), svc)
         | Some cached \<Rightarrow>
             if resolved_expiresAt cached \<ge> clock sch
             then (Returned (Some (resolved_name cached)), svc)
             else lookUpName_resolve svc sch addr net)
      else lookUpName_resolve svc sch addr net)"

text \<open>
  In \<open>lookUpName_resolve\<close>, \<^verbatim>\<open>this.cachedResolvedNames[address]?.resolved?.name\<close> is the name of
  the record read at the address, and \<^verbatim>\<open>undefined\<close> when no record is read there, also at an
  inherited key.
\<close>

record TokenMetadata =
  image :: "string option"

definition gatewayOf :: "string \<Rightarrow> URL option outcome" where
  \<comment> \<open>\<^verbatim>\<open>storageGatewayURL(new URL(s))\<close>\<close>
  "gatewayOf s =
     (case new_URL s of
        None \<Rightarrow> Threw (TypeError ''Invalid URL'')
      | Some u \<Rightarrow> Returned (Some (storageGatewayURL u)))"

definition lookUpAvatar_text ::
  "(Provider \<Rightarrow> HexString \<Rightarrow> int \<Rightarrow> TokenMetadata option settled)
     \<Rightarrow> NameService \<Rightarrow> Provider \<Rightarrow> string \<Rightarrow> URL option outcome \<times> NameService" where
  \<comment> \<open>\<open>lookUpAvatar\<close> once the \<^verbatim>\<open>avatar\<close> text record is read and is not empty\<close>
  "lookUpAvatar_text getTokenMetadata svc provider avatar =
     (if regex_test erc721Regex avatar then
        (case cachedEIP155AvatarURLs svc (toLowerCase avatar) of
           Some url \<Rightarrow> (Returned (Some url), svc)
         | None \<Rightarrow>
             let parts = split_on (\<lambda>c. c = CHR '':'' \<or> c = CHR ''/'') avatar
             in case (nth_opt parts 3, nth_opt parts 4) of
                  (Some erc721Address, Some nftID) \<Rightarrow>
                    (case BigInt nftID of
                       None \<Rightarrow> (Threw (SyntaxError ''Cannot convert to a BigInt''), svc)
                     | Some tokenId \<Rightarrow>
                         let svc1 = svc\<lparr>calls := calls svc @
                                      [GetTokenMetadataCall erc721Address tokenId]\<rparr>
                         in case getTokenMetadata provider erc721Address tokenId of
                              Rejected e \<Rightarrow> (Threw e, svc1)
                            | Fulfilled metadata \<Rightarrow>
                                (case (case metadata of None \<Rightarrow> None | Some m \<Rightarrow> image m) of
                                   None \<Rightarrow> (gatewayOf avatar, svc1)
                                 | Some img \<Rightarrow>
                                     if img = [] then (gatewayOf avatar, svc1)
                                     else
                                       (case new_URL img of
                                          None \<Rightarrow> (Threw (TypeError ''Invalid URL''), svc1)
                                        | Some u \<Rightarrow>
                                            let resolvedGateway = storageGatewayURL u
                                            in (Returned (Some resolvedGateway),
                                                svc1\<lparr>cachedEIP155AvatarURLs :=
                                                  (cachedEIP155AvatarURLs svc1)(avatar \<mapsto> resolvedGateway)\<rparr>))))
                | _ \<Rightarrow> (gatewayOf avatar, svc))
      else (gatewayOf avatar, svc))"

definition lookUpAvatar_named ::
  "(Provider \<Rightarrow> HexString \<Rightarrow> int \<Rightarrow> TokenMetadata option settled)
     \<Rightarrow> NameService \<Rightarrow> HexString \<Rightarrow> DomainName \<Rightarrow> URL option outcome \<times> NameService" where
  \<comment> \<open>\<open>lookUpAvatar\<close> once the name of the address is known and is not empty\<close>
  "lookUpAvatar_named getTokenMetadata svc addr name =
     (let provider = providers_ethereum (chainService svc);
          svc1 = svc\<lparr>calls := calls svc @ [GetResolverCall name]\<rparr>
      in case getResolver provider name of
           Rejected e \<Rightarrow> (Threw e, svc1)
         | Fulfilled None \<Rightarrow>
             \<comment> \<open>\<^verbatim>\<open>resolver?.getAddress()\<close> is \<^verbatim>\<open>undefined\<close>, which is not the address\<close>
             (Returned None, svc1)
         | Fulfilled (Some resolver) \<Rightarrow>
             let svc2 = svc1\<lparr>calls := calls svc1 @ [GetAddressCall name]\<rparr>
             in case getAddress resolver of
                  Rejected e \<Rightarrow> (Threw e, svc2)
                | Fulfilled a \<Rightarrow>
                    if \<not> sameEVMAddress a addr then (Returned None, svc2)
                    else
                      let svc3 = svc2\<lparr>calls := calls svc2 @ [GetTextCall name ''avatar'']\<rparr>
                      in case getText resolver ''avatar'' of
                           Rejected e \<Rightarrow> (Threw e, svc3)
                         | Fulfilled None \<Rightarrow> (Returned None, svc3)
                         | Fulfilled (Some avatar) \<Rightarrow>
                             if avatar = [] then (Returned None, svc3)
                             else lookUpAvatar_text getTokenMetadata svc3 provider avatar)"

definition lookUpAvatar ::
  "(Provider \<Rightarrow> HexString \<Rightarrow> int \<Rightarrow> TokenMetadata option settled)
     \<Rightarrow> NameService \<Rightarrow> Schedule \<Rightarrow> HexString \<Rightarrow> EVMNetwork \<Rightarrow> URL option outcome \<times> NameService" where
  \<comment> \<open>the first argument is \<^verbatim>\<open>getTokenMetadata\<close> of \<^verbatim>\<open>lib/erc721\<close>, which is not among the
      sources: the promise state its call ends in\<close>
  "lookUpAvatar getTokenMetadata svc sch addr net =
     (if chainID net \<noteq> ''1'' then (Threw (Error ''Only Ethereum mainnet is supported.''), svc)
      else
        case lookUpName svc sch addr net True of
          (Threw e, svc1) \<Rightarrow> (Threw e, svc1)
        | (Unsettled, svc1) \<Rightarrow> (Unsettled, svc1)
        | (Returned None, svc1) \<Rightarrow> (Returned None, svc1)
        | (Returned (Some name), svc1) \<Rightarrow>
            if name = [] then (Returned None, svc1)
            else lookUpAvatar_named getTokenMetadata svc1 addr name)"

subsection \<open>Notions used in the statements\<close>

definition slotsOf :: "nat set \<Rightarrow> 'a settled list \<Rightarrow> 'a settled option list" where
  \<comment> \<open>the slots of \<open>allSettled\<close> when the promises at the positions in \<open>S\<close> have settled\<close>
  "slotsOf S ps = map (\<lambda>i. if i \<in> S then Some (ps ! i) else None) [0..<length ps]"

definition produced :: "'a option settled \<Rightarrow> 'a option" where
  \<comment> \<open>the record a settled strategy produced, if any: the reading of a result that
      \<open>lookUpName\<close> makes\<close>
  "produced result = (case result of Fulfilled v \<Rightarrow> v | Rejected e \<Rightarrow> None)"

fun firstProduced :: "'a option settled list \<Rightarrow> 'a option" where
  \<comment> \<open>the record of the first strategy, in the order of the list, that produced one\<close>
  "firstProduced [] = None"
| "firstProduced (r # rs) = (case produced r of Some x \<Rightarrow> Some x | None \<Rightarrow> firstProduced rs)"

definition outcomes ::
  "NameService \<Rightarrow> Schedule \<Rightarrow> HexString \<Rightarrow> EVMNetwork \<Rightarrow> ResolvedNameRecord option settled list" where
  \<comment> \<open>what the strategies of the service settle to on an address, by position\<close>
  "outcomes svc sch addr net =
     map (\<lambda>i. (addressResolvers svc ! i) (resolverClock sch i) \<lparr> address = addr, network = net \<rparr>)
       [0..<length (addressResolvers svc)]"

definition invoked :: "NameService \<Rightarrow> HexString \<Rightarrow> EVMNetwork \<Rightarrow> Call list" where
  \<comment> \<open>one invocation of every strategy of the service on an address\<close>
  "invoked svc addr net =
     map (\<lambda>i. ResolverCall i \<lparr> address = addr, network = net \<rparr>) [0..<length (addressResolvers svc)]"

definition cacheValid :: "NameService \<Rightarrow> UNIXTime \<Rightarrow> HexString \<Rightarrow> bool" where
  \<comment> \<open>the test of \<open>lookUpName\<close> on the cache: an entry whose expiry is not before \<open>now\<close>\<close>
  "cacheValid svc now addr =
     (case cachedResolvedNames svc addr of
        None \<Rightarrow> False
      | Some cached \<Rightarrow> now \<le> resolved_expiresAt cached)"

definition isolated :: "NameResolverFunction \<Rightarrow> NameResolverFunction" where
  \<comment> \<open>a strategy that reports no match where the given one throws, and agrees with it
      otherwise\<close>
  "isolated resolver = (\<lambda>now aon. Fulfilled (produced (resolver now aon)))"

definition standardResolvers :: "NameService \<Rightarrow> bool" where
  \<comment> \<open>the strategies of the service are the three of the constructor, in its order\<close>
  "standardResolvers svc =
     (addressResolvers svc =
        [ensAddressResolverFor (chainService svc),
         addressBookResolverFor (preferenceService svc),
         knownContractResolverFor (preferenceService svc)])"

definition hexShaped :: "string \<Rightarrow> bool" where
  \<comment> \<open>the shape \<open>hexShapeRegex\<close> accepts: \<^verbatim>\<open>0x\<close> followed by letters and digits only\<close>
  "hexShaped a = (prefix ''0x'' a \<and> list_all (\<lambda>c. inClass c alnum) (drop 2 a))"

definition imageOf :: "TokenMetadata option \<Rightarrow> string option" where
  \<comment> \<open>the image \<open>lookUpAvatar\<close> goes on with: none when the metadata is absent, or has no
      image, or an empty one\<close>
  "imageOf metadata =
     (case metadata of
        None \<Rightarrow> None
      | Some m \<Rightarrow> (case image m of None \<Rightarrow> None | Some img \<Rightarrow> if img = [] then None else Some img))"

subsection \<open>Sample inputs\<close>

definition routerAddress :: HexString where
  \<comment> \<open>the address of the built-in contract table, in the spelling of the source\<close>
  "routerAddress = ''0xDef1C0ded9bec7F1a1670819833240f027b25EfF''"

definition chainWith :: "string option settled \<Rightarrow> ChainService" where
  \<comment> \<open>a chain service whose provider answers every reverse lookup with the given result\<close>
  "chainWith reverse =
     (let provider = \<lparr> lookupAddress = (\<lambda>a. reverse), resolveName = (\<lambda>n. Fulfilled None),
                        getResolver = (\<lambda>n. Fulfilled None) \<rparr>
      in \<lparr> providerForNetwork = (\<lambda>n. Some provider), providers_ethereum = provider \<rparr>)"

definition sampleSchedule :: Schedule where
  \<comment> \<open>the known-contract strategy settles first, the address book last\<close>
  "sampleSchedule =
     \<lparr> clock = 5000, resolverClock = (\<lambda>i. 6000 + int i), completion = [2, 0, 1] \<rparr>"

definition sampleService :: NameService where
  "sampleService =
     NameService_new (chainWith (Fulfilled (Some ''router.eth''))) thePreferenceService"

definition faultyService :: NameService where
  \<comment> \<open>the reverse lookup of the provider fails\<close>
  "faultyService =
     NameService_new (chainWith (Rejected (Error ''rpc failure''))) thePreferenceService"

definition ensRecord :: ResolvedNameRecord where
  \<comment> \<open>what the reverse lookup of \<open>sampleService\<close> produces under \<open>sampleSchedule\<close>\<close>
  "ensRecord =
     \<lparr> from_addressNetwork = \<lparr> address = routerAddress, network = ETHEREUM \<rparr>,
       resolved_name = ''router.eth'', resolved_expiresAt = 16000, system = ENS \<rparr>"

definition tableRecord :: ResolvedNameRecord where
  \<comment> \<open>what the built-in contract table produces under \<open>sampleSchedule\<close>\<close>
  "tableRecord =
     \<lparr> from_addressNetwork = \<lparr> address = routerAddress, network = ETHEREUM \<rparr>,
       resolved_name = ''0x Router'', resolved_expiresAt = 16002, system = KnownContracts \<rparr>"

definition staleRecord :: ResolvedNameRecord where
  \<comment> \<open>an entry that expires at the very time \<open>sampleSchedule\<close> reads the clock\<close>
  "staleRecord =
     \<lparr> from_addressNetwork = \<lparr> address = routerAddress, network = ETHEREUM \<rparr>,
       resolved_name = ''old.eth'', resolved_expiresAt = 5000, system = ENS \<rparr>"

definition cachedService :: NameService where
  "cachedService = sampleService\<lparr>cachedResolvedNames := [routerAddress \<mapsto> staleRecord]\<rparr>"

definition resolvedService :: NameService where
  \<comment> \<open>the sample service once the record of the reverse lookup is its entry\<close>
  "resolvedService = sampleService\<lparr>cachedResolvedNames := [routerAddress \<mapsto> ensRecord]\<rparr>"

definition lowerRouterAddress :: HexString where
  \<comment> \<open>the same address as \<open>routerAddress\<close>, spelled in lower case\<close>
  "lowerRouterAddress = ''0xdef1c0ded9bec7f1a1670819833240f027b25eff''"

definition bookPreferences :: PreferenceService where
  \<comment> \<open>the preference service with one entry in the address book\<close>
  "bookPreferences =
     thePreferenceService\<lparr>getAddressBook := [lowerRouterAddress \<mapsto> ''my router'']\<rparr>"

definition bookRecord :: ResolvedNameRecord where
  "bookRecord =
     \<lparr> from_addressNetwork = \<lparr> address = routerAddress, network = ETHEREUM \<rparr>,
       resolved_name = ''my router'', resolved_expiresAt = 16001, system = AddressBook \<rparr>"

definition forwardService :: "HexString option settled \<Rightarrow> NameService" where
  \<comment> \<open>a service whose provider answers every forward lookup with the given result\<close>
  "forwardService forward =
     (let provider = \<lparr> lookupAddress = (\<lambda>a. Fulfilled None), resolveName = (\<lambda>n. forward),
                        getResolver = (\<lambda>n. Fulfilled None) \<rparr>
      in NameService_new \<lparr> providerForNetwork = (\<lambda>n. Some provider), providers_ethereum = provider \<rparr>
           thePreferenceService)"

definition avatarResolver :: "string \<Rightarrow> Resolver" where
  \<comment> \<open>the resolver of a name that points back to the router address and whose text records
      all hold the given string\<close>
  "avatarResolver reference =
     \<lparr> getAddress = Fulfilled (Some lowerRouterAddress),
       getText = (\<lambda>key. Fulfilled (Some reference)) \<rparr>"

definition avatarService :: "string \<Rightarrow> NameService" where
  \<comment> \<open>a service whose provider names every address \<^verbatim>\<open>router.eth\<close> and resolves every name
      with \<open>avatarResolver\<close>\<close>
  "avatarService reference =
     (let provider = \<lparr> lookupAddress = (\<lambda>a. Fulfilled (Some ''router.eth'')),
                        resolveName = (\<lambda>n. Fulfilled None),
                        getResolver = (\<lambda>n. Fulfilled (Some (avatarResolver reference))) \<rparr>
      in NameService_new \<lparr> providerForNetwork = (\<lambda>n. Some provider), providers_ethereum = provider \<rparr>
           thePreferenceService)"

definition noMetadata :: "Provider \<Rightarrow> HexString \<Rightarrow> int \<Rightarrow> TokenMetadata option settled" where
  \<comment> \<open>a token-metadata fetch that finds nothing\<close>
  "noMetadata provider contract tokenId = Fulfilled None"

definition blankMetadata :: "Provider \<Rightarrow> HexString \<Rightarrow> int \<Rightarrow> TokenMetadata option settled" where
  \<comment> \<open>a token-metadata fetch that finds metadata without an image\<close>
  "blankMetadata provider contract tokenId = Fulfilled (Some \<lparr> image = None \<rparr>)"

definition referenceURL :: "string \<Rightarrow> URL" where
  \<comment> \<open>the URL \<^verbatim>\<open>eip155:\<close> followed by the given opaque path\<close>
  "referenceURL path =
     \<lparr> scheme = ''eip155'', host = None, pathname = path, query = None, fragment = None \<rparr>"

section \<open>The gateway rewriter\<close>

lemma protocol_not_bare: "protocol url \<noteq> ''ipfs''" "protocol url \<noteq> ''ar''"
proof -
  have "last (protocol url) = CHR '':''" by (simp add: protocol_def)
  then show "protocol url \<noteq> ''ipfs''" "protocol url \<noteq> ''ar''" by auto
qed

lemma storageGatewayURL_unchanged: "storageGatewayURL url = url"
  by (simp add: storageGatewayURL_def protocol_not_bare)

lemma gateways_parsed:
  "new_URL ''https://ipfs.io/ipfs/'' = Some ipfsGateway"
  "new_URL ''https://arweave.net/'' = Some arweaveGateway"
  by code_simp+

text \<open>
  C1 (the test vectors of the rewriter). The cases of \<open>storageGatewayURL\<close> compare
  \<^verbatim>\<open>url.protocol\<close> with \<^verbatim>\<open>"ipfs"\<close> and \<^verbatim>\<open>"ar"\<close>, and the protocol of a URL ends with a
  colon, so no case is taken: the URL comes back as it was. At the three vectors the
  rewriter returns \<^verbatim>\<open>ipfs://CID/path?x=1#y\<close>, \<^verbatim>\<open>ar://TXID\<close> and
  \<^verbatim>\<open>https://example.com/a\<close>: the third is what the vectors ask for, the first two are not
  rewritten to a gateway.
\<close>

theorem storageGatewayURL_test_vectors:
  "map_option (href \<circ> storageGatewayURL) (new_URL ''ipfs://CID/path?x=1#y'')
     = Some ''ipfs://CID/path?x=1#y''
   \<and> map_option (href \<circ> storageGatewayURL) (new_URL ''ar://TXID'') = Some ''ar://TXID''
   \<and> map_option (href \<circ> storageGatewayURL) (new_URL ''https://example.com/a'')
     = Some ''https://example.com/a''"
  by code_simp

section \<open>Auxiliary facts\<close>

subsection \<open>Waiting for all strategies\<close>

lemma slotStep_slotsOf: "slotStep ps i (slotsOf S ps) = slotsOf (insert i S) ps"
proof (cases "i < length ps \<and> i \<notin> S")
  case True
  then show ?thesis
    by (intro nth_equalityI) (auto simp: slotStep_def slotsOf_def nth_list_update)
next
  case False
  then have "slotStep ps i (slotsOf S ps) = slotsOf S ps"
    by (auto simp: slotStep_def slotsOf_def)
  moreover have "slotsOf (insert i S) ps = slotsOf S ps"
    using False by (auto simp: slotsOf_def)
  ultimately show ?thesis by simp
qed

lemma fold_slotStep: "fold (slotStep ps) cs (slotsOf S ps) = slotsOf (S \<union> set cs) ps"
  by (induction cs arbitrary: S) (simp_all add: slotStep_slotsOf)

lemma replicate_slotsOf: "replicate (length ps) None = slotsOf {} ps"
  by (simp add: slotsOf_def map_replicate_const)

lemma those_map_Some: "those (map Some xs) = Some xs"
  by (induction xs) simp_all

lemma those_None: "None \<in> set xs \<Longrightarrow> those xs = None"
  by (induction xs) (auto split: option.splits)

lemma allSettled_all:
  assumes "\<forall>i < length ps. i \<in> set cs"
  shows "allSettled cs ps = Some ps"
proof -
  have "slotsOf ({} \<union> set cs) ps = map Some ps"
    using assms by (auto simp: slotsOf_def intro!: nth_equalityI)
  then show ?thesis
    by (simp add: allSettled_def replicate_slotsOf fold_slotStep those_map_Some)
qed

lemma allSettled_pending:
  assumes "i < length ps" "i \<notin> set cs"
  shows "allSettled cs ps = None"
proof -
  have "slotsOf ({} \<union> set cs) ps ! i = None"
    using assms by (simp add: slotsOf_def)
  moreover have "i < length (slotsOf ({} \<union> set cs) ps)"
    using assms(1) by (simp add: slotsOf_def)
  ultimately have "None \<in> set (slotsOf ({} \<union> set cs) ps)"
    by (metis nth_mem)
  then show ?thesis
    by (simp add: allSettled_def replicate_slotsOf fold_slotStep those_None)
qed

subsection \<open>The shape of \<open>lookUpName\<close>\<close>

lemma map_enumerate:
  "map (\<lambda>(i, x). g i x) (enumerate 0 xs) = map (\<lambda>i. g i (xs ! i)) [0..<length xs]"
  by (intro nth_equalityI) (simp_all add: nth_enumerate_eq)

lemma find_firstProduced:
  "(case List.find (\<lambda>result. result \<noteq> None)
           (map (\<lambda>result. case result of Fulfilled v \<Rightarrow> v | Rejected e \<Rightarrow> None) rs) of
      None \<Rightarrow> A | Some None \<Rightarrow> A | Some (Some x) \<Rightarrow> B x)
   = (case firstProduced rs of None \<Rightarrow> A | Some x \<Rightarrow> B x)"
  by (induction rs) (auto simp: produced_def split: settled.splits option.splits)

lemma lookUpName_resolve_settled:
  assumes "set [0..<length (addressResolvers svc)] \<subseteq> set (completion sch)"
  shows "lookUpName_resolve svc sch addr net =
     (case firstProduced (outcomes svc sch addr net) of
        None \<Rightarrow> (Returned None, svc\<lparr>calls := calls svc @ invoked svc addr net\<rparr>)
      | Some r \<Rightarrow>
          (Returned (Some (resolved_name r)),
           svc\<lparr>calls := calls svc @ invoked svc addr net,
               cachedResolvedNames := (cachedResolvedNames svc)(addr \<mapsto> r),
               emitted := emitted svc @
                 (if map_option resolved_name (cachedResolvedNames svc addr) \<noteq> Some (resolved_name r)
                  then [resolvedName r] else [])\<rparr>))"
proof -
  have settled:
    "allSettled (completion sch) (outcomes svc sch addr net) = Some (outcomes svc sch addr net)"
    using assms by (intro allSettled_all) (auto simp: outcomes_def)
  show ?thesis
    unfolding lookUpName_resolve_def Let_def map_enumerate
    unfolding outcomes_def[symmetric] invoked_def[symmetric] settled option.case find_firstProduced
    by (simp split: option.splits)
qed

lemma lookUpName_resolve_unsettled:
  assumes "i < length (addressResolvers svc)" "i \<notin> set (completion sch)"
  shows "lookUpName_resolve svc sch addr net =
     (Unsettled, svc\<lparr>calls := calls svc @ invoked svc addr net\<rparr>)"
proof -
  have "allSettled (completion sch) (outcomes svc sch addr net) = None"
    using assms by (intro allSettled_pending[of i]) (auto simp: outcomes_def)
  then show ?thesis
    unfolding lookUpName_resolve_def Let_def map_enumerate
    unfolding outcomes_def[symmetric] invoked_def[symmetric]
    by simp
qed

lemma inCache_plain:
  "\<not> inheritedKey svc addr \<Longrightarrow> inCache svc addr = (cachedResolvedNames svc addr \<noteq> None)"
  by (simp add: inCache_def)

lemma address_not_inherited: "prefix ''0x'' addr \<Longrightarrow> \<not> inheritedKey svc addr"
  by (auto simp: inheritedKey_def objectPrototypeKeys_def recordKeys_def)

lemma address_not_prototype_key:
  "prefix ''0x'' addr \<Longrightarrow> normalizeEVMAddress addr \<notin> set objectPrototypeKeys"
proof
  assume "prefix ''0x'' addr" and key: "normalizeEVMAddress addr \<in> set objectPrototypeKeys"
  then obtain rest where "addr = CHR ''0'' # CHR ''x'' # rest"
    by (auto simp: prefix_def)
  then have "hd (normalizeEVMAddress addr) = CHR ''0''"
    by (simp add: normalizeEVMAddress_def toLowerCase_def toLowerCaseChar_def inClass_def)
  with key show False
    by (auto simp: objectPrototypeKeys_def)
qed

lemma lookUpName_hit:
  assumes "chainID net = ''1''" "checkCache" "cachedResolvedNames svc addr = Some cached"
    "clock sch \<le> resolved_expiresAt cached"
  shows "lookUpName svc sch addr net checkCache = (Returned (Some (resolved_name cached)), svc)"
  using assms by (simp add: lookUpName_def inCache_def)

lemma lookUpName_miss:
  assumes "chainID net = ''1''" "\<not> inheritedKey svc addr"
    "\<not> (checkCache \<and> cacheValid svc (clock sch) addr)"
  shows "lookUpName svc sch addr net checkCache = lookUpName_resolve svc sch addr net"
  using assms by (auto simp: lookUpName_def cacheValid_def inCache_def split: option.splits)

lemma lookUpName_returned:
  assumes "chainID net = ''1''" "\<not> (checkCache \<and> cacheValid svc (clock sch) addr)"
    "fst (lookUpName svc sch addr net checkCache) = Returned x"
  shows "lookUpName svc sch addr net checkCache = lookUpName_resolve svc sch addr net"
  using assms
  by (auto simp: lookUpName_def cacheValid_def split: option.splits if_splits)

lemma lookUpName_inherited_key:
  assumes "chainID net = ''1''" "inheritedKey svc addr" "cachedResolvedNames svc addr = None"
  shows "lookUpName svc sch addr net True
     = (Threw (TypeError ''Cannot destructure property of undefined''), svc)"
  using assms by (simp add: lookUpName_def inCache_def)

lemma unsettled_position: "\<not> set [0..<n] \<subseteq> S \<Longrightarrow> \<exists>i. i < n \<and> i \<notin> S"
  by (auto simp: subset_eq)

lemma firstProduced_None: "firstProduced rs = None \<longleftrightarrow> list_all (\<lambda>r. produced r = None) rs"
  by (induction rs) (auto split: option.splits)

lemma firstProduced_Some:
  "firstProduced rs = Some x \<Longrightarrow> \<exists>k < length rs. produced (rs ! k) = Some x"
proof (induction rs)
  case Nil
  then show ?case by simp
next
  case (Cons r rs)
  show ?case
  proof (cases "produced r")
    case None
    with Cons obtain k where "k < length rs" "produced (rs ! k) = Some x" by auto
    then have "Suc k < length (r # rs) \<and> produced ((r # rs) ! Suc k) = Some x" by simp
    then show ?thesis by blast
  next
    case (Some y)
    with Cons.prems have "0 < length (r # rs) \<and> produced ((r # rs) ! 0) = Some x" by simp
    then show ?thesis by blast
  qed
qed

lemma produced_Some: "produced x = Some r \<longleftrightarrow> x = Fulfilled (Some r)"
  by (cases x) (simp_all add: produced_def)

subsection \<open>The records of the three strategies\<close>

lemma ens_record:
  assumes "ensAddressResolverFor cs now aon = Fulfilled (Some r)"
  shows "resolved_expiresAt r = now + MINIMUM_RECORD_EXPIRY \<and> system r = ENS"
proof -
  define answer where "answer =
    (case providerForNetwork cs (network aon) of
       None \<Rightarrow> Fulfilled None
     | Some provider \<Rightarrow> lookupAddress provider (address aon))"
  show ?thesis
    using assms unfolding ensAddressResolverFor_def answer_def[symmetric]
    by (cases answer) (auto split: option.splits if_splits)
qed

lemma book_record:
  assumes "addressBookResolverFor ps now aon = Fulfilled (Some r)"
  shows "resolved_expiresAt r = now + MINIMUM_RECORD_EXPIRY \<and> system r = AddressBook"
  using assms unfolding addressBookResolverFor_def by (auto split: option.splits)

lemma known_record:
  assumes "knownContractResolverFor ps now aon = Fulfilled (Some r)"
  shows "resolved_expiresAt r = now + MINIMUM_RECORD_EXPIRY \<and> system r = KnownContracts"
  using assms unfolding knownContractResolverFor_def by (auto split: option.splits)

lemma standardResolvers_new: "standardResolvers (NameService_new cs ps)"
  by (simp add: standardResolvers_def NameService_new_def)

lemma standardResolvers_lookUpName:
  "addressResolvers (snd (lookUpName svc sch addr net checkCache)) = addressResolvers svc"
proof (cases "set [0..<length (addressResolvers svc)] \<subseteq> set (completion sch)")
  case True
  then show ?thesis
    by (simp add: lookUpName_def lookUpName_resolve_settled split: option.splits)
next
  case False
  then obtain i where "i < length (addressResolvers svc)" "i \<notin> set (completion sch)"
    using unsettled_position by blast
  then show ?thesis
    by (simp add: lookUpName_def lookUpName_resolve_unsettled split: option.splits)
qed

lemma outcomes_standard:
  assumes "standardResolvers svc"
  shows "outcomes svc sch addr net =
    [ensAddressResolverFor (chainService svc) (resolverClock sch 0) \<lparr> address = addr, network = net \<rparr>,
     addressBookResolverFor (preferenceService svc) (resolverClock sch 1) \<lparr> address = addr, network = net \<rparr>,
     knownContractResolverFor (preferenceService svc) (resolverClock sch 2) \<lparr> address = addr, network = net \<rparr>]"
proof -
  have three: "[0..<3] = [0, 1, 2::nat]" by code_simp
  from assms have "length (addressResolvers svc) = 3"
    by (simp add: standardResolvers_def)
  then have "outcomes svc sch addr net =
      map (\<lambda>i. (addressResolvers svc ! i) (resolverClock sch i) \<lparr> address = addr, network = net \<rparr>) [0, 1, 2]"
    by (simp add: outcomes_def three)
  with assms show ?thesis
    by (simp add: standardResolvers_def)
qed

subsection \<open>The sample runs\<close>

lemma primary_ETHEREUM: "chainID ETHEREUM = ''1''"
  by (simp add: ETHEREUM_def)

lemma sample_outcomes:
  "outcomes sampleService sampleSchedule routerAddress ETHEREUM
     = [Fulfilled (Some ensRecord), Fulfilled None, Fulfilled (Some tableRecord)]"
  by code_simp

lemma faulty_outcomes:
  "outcomes faultyService sampleSchedule routerAddress ETHEREUM
     = [Rejected (Error ''rpc failure''), Fulfilled None, Fulfilled (Some tableRecord)]"
  by code_simp

lemma faulty_outcomes_unknown:
  "outcomes faultyService sampleSchedule ''0x00'' ETHEREUM
     = [Rejected (Error ''rpc failure''), Fulfilled None, Fulfilled None]"
  by code_simp

lemma outcomes_cache: "outcomes (svc\<lparr>cachedResolvedNames := m\<rparr>) sch addr net = outcomes svc sch addr net"
  by (simp add: outcomes_def)

lemma cached_outcomes:
  "outcomes cachedService sampleSchedule routerAddress ETHEREUM
     = [Fulfilled (Some ensRecord), Fulfilled None, Fulfilled (Some tableRecord)]"
  "outcomes resolvedService sampleSchedule routerAddress ETHEREUM
     = [Fulfilled (Some ensRecord), Fulfilled None, Fulfilled (Some tableRecord)]"
  by (simp_all add: cachedService_def resolvedService_def outcomes_cache sample_outcomes)

lemma sample_settle:
  "set [0..<length (addressResolvers sampleService)] \<subseteq> set (completion sampleSchedule)"
  "set [0..<length (addressResolvers faultyService)] \<subseteq> set (completion sampleSchedule)"
  "set [0..<length (addressResolvers cachedService)] \<subseteq> set (completion sampleSchedule)"
  "set [0..<length (addressResolvers resolvedService)] \<subseteq> set (completion sampleSchedule)"
  by code_simp+

lemma sample_fresh:
  "cachedResolvedNames sampleService a = None" "emitted sampleService = []" "calls sampleService = []"
  "cachedResolvedNames faultyService a = None" "emitted faultyService = []" "calls faultyService = []"
  by (simp_all add: sampleService_def faultyService_def NameService_new_def)

lemma sample_miss:
  "\<not> (checkCache \<and> cacheValid sampleService now a)"
  "\<not> (checkCache \<and> cacheValid faultyService now a)"
  by (simp_all add: cacheValid_def sample_fresh)

lemma sample_prefix: "prefix ''0x'' routerAddress" "prefix ''0x'' lowerRouterAddress"
  by (simp_all add: routerAddress_def lowerRouterAddress_def)

lemma sample_plain:
  "\<not> inheritedKey svc routerAddress" "\<not> inheritedKey svc lowerRouterAddress"
  "\<not> inheritedKey svc ''0x00''"
  by (simp_all add: address_not_inherited sample_prefix)

lemma sample_table:
  "normalizeEVMAddress routerAddress \<notin> set objectPrototypeKeys"
  "normalizeEVMAddress lowerRouterAddress \<notin> set objectPrototypeKeys"
  by (simp_all add: address_not_prototype_key sample_prefix)

text \<open>
  At a key that the cache object inherits and that holds no record, the cache check fails
  before any strategy runs; and once a record has been stored at \<^verbatim>\<open>__proto__\<close>, the keys of a
  record are inherited too.
\<close>

lemma lookUpName_toString:
  "lookUpName (NameService_new cs ps) sch ''toString'' ETHEREUM True
     = (Threw (TypeError ''Cannot destructure property of undefined''), NameService_new cs ps)"
proof -
  have "inheritedKey (NameService_new cs ps) ''toString''"
    by (simp add: inheritedKey_def objectPrototypeKeys_def)
  moreover have "cachedResolvedNames (NameService_new cs ps) ''toString'' = None"
    by (simp add: NameService_new_def)
  ultimately show ?thesis
    using primary_ETHEREUM by (rule lookUpName_inherited_key[rotated])
qed

lemma prototype_replaced:
  "inheritedKey (svc\<lparr>cachedResolvedNames := (cachedResolvedNames svc)(''__proto__'' \<mapsto> r)\<rparr>) ''resolved''"
  by (simp add: inheritedKey_def recordKeys_def)

lemma sample_names:
  "resolved_name ensRecord = ''router.eth''" "resolved_name tableRecord = ''0x Router''"
  "resolved_name staleRecord = ''old.eth''"
  by (simp_all add: ensRecord_def tableRecord_def staleRecord_def)

subsection \<open>What the regular expressions of the service accept\<close>

lemma matchesAll_Never [simp]: "matchesAll Never s = False"
  by (induction s) auto

lemma matchesAll_Or [simp]: "matchesAll (Or r q) s = (matchesAll r s \<or> matchesAll q s)"
  by (induction s arbitrary: r q) auto

lemma matchesAll_Cat_Never [simp]: "matchesAll (Cat Never r) s = False"
  by (induction s) auto

lemma matchesAll_Empty [simp]: "matchesAll Empty s = (s = [])"
  by (cases s) auto

lemma matchesAll_Cat_Empty [simp]: "matchesAll (Cat Empty r) s = matchesAll r s"
  by (cases s) auto

lemma matchesAll_Cat_Chr [simp]:
  "matchesAll (Cat (Chr a) r) s = (\<exists>t. s = a # t \<and> matchesAll r t)"
  by (cases s) auto

lemma matchesAll_chars [simp]: "matchesAll (chars w) s = (s = w)"
  by (induction w arbitrary: s) auto

lemma matchesAll_Cat:
  "matchesAll (Cat r q) s = (\<exists>u v. s = u @ v \<and> matchesAll r u \<and> matchesAll q v)"
proof (induction s arbitrary: r q)
  case Nil
  then show ?case by simp
next
  case (Cons c s)
  have split: "(\<exists>u v. c # s = u @ v \<and> matchesAll r u \<and> matchesAll q v) =
      ((nullable r \<and> matchesAll q (c # s)) \<or>
       (\<exists>u v. s = u @ v \<and> matchesAll (deriv c r) u \<and> matchesAll q v))"
    (is "?L = ?R")
  proof
    assume ?L
    then obtain u v where uv: "c # s = u @ v" "matchesAll r u" "matchesAll q v" by blast
    show ?R
    proof (cases u)
      case Nil
      with uv show ?thesis by simp
    next
      case (Cons a u')
      with uv have "s = u' @ v" "matchesAll (deriv c r) u'" by auto
      with uv(3) show ?thesis by blast
    qed
  next
    assume ?R
    then show ?L
    proof
      assume "nullable r \<and> matchesAll q (c # s)"
      then have "c # s = [] @ (c # s) \<and> matchesAll r [] \<and> matchesAll q (c # s)" by simp
      then show ?L by blast
    next
      assume "\<exists>u v. s = u @ v \<and> matchesAll (deriv c r) u \<and> matchesAll q v"
      then obtain u v where "s = u @ v" "matchesAll (deriv c r) u" "matchesAll q v" by blast
      then have "c # s = (c # u) @ v \<and> matchesAll r (c # u) \<and> matchesAll q v" by simp
      then show ?L by blast
    qed
  qed
  show ?case unfolding split using Cons.IH by auto
qed

lemma matchesAll_Many_Class:
  "matchesAll (Many (Class cs)) s = list_all (\<lambda>c. inClass c cs) s"
  by (induction s) auto

lemma matchesAll_Many_AnyChar:
  "matchesAll (Many AnyChar) s = list_all (\<lambda>c. \<not> lineTerminator c) s"
  by (induction s) auto

lemma matchesPrefix_Cat_Never [simp]: "matchesPrefix (Cat Never r) s = False"
  by (induction s) auto

lemma matchesPrefix_Or [simp]:
  "matchesPrefix (Or r q) s = (matchesPrefix r s \<or> matchesPrefix q s)"
  by (induction s arbitrary: r q) auto

lemma matchesPrefix_Empty [simp]: "matchesPrefix Empty s = True"
  by (cases s) auto

lemma matchesPrefix_Cat_Empty [simp]: "matchesPrefix (Cat Empty r) s = matchesPrefix r s"
  by (cases s) auto

lemma matchesPrefix_chars: "matchesPrefix (chars w) s = prefix w s"
proof (induction w arbitrary: s)
  case Nil
  then show ?case by simp
next
  case (Cons a w)
  then show ?case by (cases s) auto
qed

lemma erc721Regex_prefix: "regex_test erc721Regex s = prefix ''eip155:1/erc721:'' s"
  by (simp add: regex_test_def erc721Regex_def matchAt_def matchesPrefix_chars del: chars.simps)

lemma hexShapeRegex_shape:
  "regex_test hexShapeRegex s = (\<exists>t. s = ''0x'' @ t \<and> list_all (\<lambda>c. inClass c alnum) t)"
  by (auto simp: regex_test_def hexShapeRegex_def matchAt_def matchesAll_Cat matchesAll_Many_Class
      simp del: chars.simps)

lemma dotEthRegex_suffix: "regex_test dotEthRegex s = suffix ''.eth'' s"
proof
  assume "regex_test dotEthRegex s"
  then obtain i where "matchesAll (Cat (Many AnyChar) (chars ''.eth'')) (drop i s)"
    by (auto simp: regex_test_def dotEthRegex_def matchAt_def list_ex_iff)
  then obtain u where "drop i s = u @ ''.eth''"
    by (auto simp: matchesAll_Cat simp del: chars.simps)
  then have "s = (take i s @ u) @ ''.eth''"
    by (metis append_assoc append_take_drop_id)
  then show "suffix ''.eth'' s"
    by (rule suffixI)
next
  assume "suffix ''.eth'' s"
  then obtain p where p: "s = p @ ''.eth''"
    by (auto simp: suffix_def)
  have "matchesAll (Cat (Many AnyChar) (chars ''.eth'')) ([] @ ''.eth'')"
    unfolding matchesAll_Cat
    by (rule exI[of _ "[]"], rule exI[of _ "''.eth''"]) simp
  then have "matchesAll (Cat (Many AnyChar) (chars ''.eth'')) (drop (length p) s)"
    using p by simp
  moreover have "length p \<in> set [0..<Suc (length s)]"
    using p by simp
  ultimately show "regex_test dotEthRegex s"
    unfolding regex_test_def dotEthRegex_def matchAt_def list_ex_iff by auto
qed

subsection \<open>Strategies that throw\<close>

lemma outcomes_isolated:
  "outcomes (svc\<lparr>addressResolvers := map isolated (addressResolvers svc)\<rparr>) sch addr net
     = map (\<lambda>result. Fulfilled (produced result)) (outcomes svc sch addr net)"
  by (simp add: outcomes_def isolated_def)

lemma firstProduced_isolated:
  "firstProduced (map (\<lambda>result. Fulfilled (produced result)) rs) = firstProduced rs"
  by (induction rs) (auto simp: produced_def split: settled.splits option.splits)

lemma invoked_isolated:
  "invoked (svc\<lparr>addressResolvers := map isolated (addressResolvers svc)\<rparr>) addr net = invoked svc addr net"
  by (simp add: invoked_def)

lemma lookUpName_resolve_isolated:
  "lookUpName_resolve (svc\<lparr>addressResolvers := map isolated (addressResolvers svc)\<rparr>) sch addr net
     = (fst (lookUpName_resolve svc sch addr net),
        (snd (lookUpName_resolve svc sch addr net))\<lparr>addressResolvers := map isolated (addressResolvers svc)\<rparr>)"
proof (cases "set [0..<length (addressResolvers svc)] \<subseteq> set (completion sch)")
  case True
  then have "set [0..<length (addressResolvers (svc\<lparr>addressResolvers := map isolated (addressResolvers svc)\<rparr>))]
      \<subseteq> set (completion sch)" by simp
  from lookUpName_resolve_settled[OF this] lookUpName_resolve_settled[OF True]
  show ?thesis
    by (simp add: outcomes_isolated firstProduced_isolated invoked_isolated split: option.splits)
next
  case False
  then obtain i where i: "i < length (addressResolvers svc)" "i \<notin> set (completion sch)"
    using unsettled_position by blast
  then have "i < length (addressResolvers (svc\<lparr>addressResolvers := map isolated (addressResolvers svc)\<rparr>))"
    by simp
  from lookUpName_resolve_unsettled[OF this i(2)] lookUpName_resolve_unsettled[OF i]
  show ?thesis
    by (simp add: invoked_isolated)
qed

section \<open>Name resolution\<close>

subsection \<open>Priority of the strategies\<close>

text \<open>
  C2. On the primary network, for an address that is not the name of a property that the
  cache object inherits and whose normalised form is not the name of a property of
  \<^verbatim>\<open>Object.prototype\<close>, when the cache does not answer and every strategy settles, the name
  returned by \<open>lookUpName\<close> and the record it stores are those of the first strategy that
  produced a record, in the order on-chain reverse lookup, address book, known contracts;
  and the whole result is the same for every order in which the strategies settle. Every
  string that begins with \<^verbatim>\<open>0x\<close> is such an address (\<open>address_not_inherited\<close>,
  \<open>address_not_prototype_key\<close>).
\<close>

theorem lookUpName_priority:
  fixes svc :: NameService and sch :: Schedule and addr :: HexString and net :: EVMNetwork
  defines "aon \<equiv> \<lparr> address = addr, network = net \<rparr>"
  defines "ens \<equiv> produced (ensAddressResolverFor (chainService svc) (resolverClock sch 0) aon)"
  defines "book \<equiv> produced (addressBookResolverFor (preferenceService svc) (resolverClock sch 1) aon)"
  defines "known \<equiv> produced (knownContractResolverFor (preferenceService svc) (resolverClock sch 2) aon)"
  defines "winner \<equiv>
    (case ens of Some r \<Rightarrow> Some r | None \<Rightarrow> (case book of Some r \<Rightarrow> Some r | None \<Rightarrow> known))"
  assumes primary: "chainID net = ''1''"
    and standard: "standardResolvers svc"
    and miss: "\<not> (checkCache \<and> cacheValid svc (clock sch) addr)"
    and settle: "set [0..<3] \<subseteq> set (completion sch)"
    and settle': "set [0..<3] \<subseteq> set order"
    and plain: "\<not> inheritedKey svc addr"
    and table: "normalizeEVMAddress addr \<notin> set objectPrototypeKeys"
  shows "fst (lookUpName svc sch addr net checkCache) = Returned (map_option resolved_name winner)
    \<and> (winner \<noteq> None \<longrightarrow>
          cachedResolvedNames (snd (lookUpName svc sch addr net checkCache)) addr = winner)
    \<and> lookUpName svc (sch\<lparr>completion := order\<rparr>) addr net checkCache
        = lookUpName svc sch addr net checkCache"
proof -
  have len: "length (addressResolvers svc) = 3"
    using standard by (simp add: standardResolvers_def)
  have first: "firstProduced (outcomes svc sch addr net) = winner"
    by (simp add: outcomes_standard[OF standard] winner_def ens_def book_def known_def aon_def
        split: option.splits)
  have resolve: "lookUpName svc sch addr net checkCache = lookUpName_resolve svc sch addr net"
    using primary plain miss by (rule lookUpName_miss)
  have settled: "set [0..<length (addressResolvers svc)] \<subseteq> set (completion sch)"
    using settle len by simp
  have same_outcomes: "outcomes svc (sch\<lparr>completion := order\<rparr>) addr net = outcomes svc sch addr net"
    by (simp add: outcomes_def)
  have resolve': "lookUpName svc (sch\<lparr>completion := order\<rparr>) addr net checkCache
      = lookUpName_resolve svc (sch\<lparr>completion := order\<rparr>) addr net"
    using primary plain miss by (intro lookUpName_miss) (simp_all add: inheritedKey_def)
  have settled':
    "set [0..<length (addressResolvers svc)] \<subseteq> set (completion (sch\<lparr>completion := order\<rparr>))"
    using settle' len by simp
  have returned:
    "fst (lookUpName svc sch addr net checkCache) = Returned (map_option resolved_name winner)"
    unfolding resolve
    by (simp add: lookUpName_resolve_settled[OF settled] first split: option.splits)
  have stored: "winner \<noteq> None \<longrightarrow>
      cachedResolvedNames (snd (lookUpName svc sch addr net checkCache)) addr = winner"
    unfolding resolve
    by (simp add: lookUpName_resolve_settled[OF settled] first split: option.splits)
  have order_free: "lookUpName svc (sch\<lparr>completion := order\<rparr>) addr net checkCache
        = lookUpName svc sch addr net checkCache"
    unfolding resolve resolve'
    by (simp add: lookUpName_resolve_settled[OF settled] lookUpName_resolve_settled[OF settled']
        same_outcomes)
  from returned stored order_free show ?thesis by blast
qed

text \<open>
  The sample service on the address of the built-in table: the reverse lookup and the
  known-contract table both produce a record, the table settles first, and the name of the
  reverse lookup is returned and stored.
\<close>

theorem lookUpName_priority_witness:
  "chainID ETHEREUM = ''1''
   \<and> standardResolvers sampleService
   \<and> \<not> (True \<and> cacheValid sampleService (clock sampleSchedule) routerAddress)
   \<and> set [0..<3] \<subseteq> set (completion sampleSchedule)
   \<and> set [0..<3] \<subseteq> set [1, 2, 0]
   \<and> \<not> inheritedKey sampleService routerAddress
   \<and> normalizeEVMAddress routerAddress \<notin> set objectPrototypeKeys
   \<and> produced (ensAddressResolverFor (chainService sampleService) (resolverClock sampleSchedule 0)
        \<lparr> address = routerAddress, network = ETHEREUM \<rparr>) = Some ensRecord
   \<and> produced (knownContractResolverFor (preferenceService sampleService) (resolverClock sampleSchedule 2)
        \<lparr> address = routerAddress, network = ETHEREUM \<rparr>) = Some tableRecord
   \<and> fst (lookUpName sampleService sampleSchedule routerAddress ETHEREUM True)
        = Returned (Some ''router.eth'')
   \<and> cachedResolvedNames (snd (lookUpName sampleService sampleSchedule routerAddress ETHEREUM True))
        routerAddress = Some ensRecord
   \<and> lookUpName sampleService (sampleSchedule\<lparr>completion := [1, 2, 0]\<rparr>) routerAddress ETHEREUM True
        = lookUpName sampleService sampleSchedule routerAddress ETHEREUM True"
proof -
  have standard: "standardResolvers sampleService"
    by (simp add: sampleService_def standardResolvers_new)
  have miss: "\<not> (True \<and> cacheValid sampleService (clock sampleSchedule) routerAddress)"
    by (rule sample_miss)
  have settle: "set [0..<3] \<subseteq> set (completion sampleSchedule)" by code_simp
  have settle': "set [0..<3] \<subseteq> set [1, 2, 0]" by code_simp
  have ens: "produced (ensAddressResolverFor (chainService sampleService) (resolverClock sampleSchedule 0)
        \<lparr> address = routerAddress, network = ETHEREUM \<rparr>) = Some ensRecord"
    using sample_outcomes by (simp add: outcomes_standard[OF standard] produced_def)
  have known: "produced (knownContractResolverFor (preferenceService sampleService) (resolverClock sampleSchedule 2)
        \<lparr> address = routerAddress, network = ETHEREUM \<rparr>) = Some tableRecord"
    using sample_outcomes by (simp add: outcomes_standard[OF standard] produced_def)
  from lookUpName_priority[OF primary_ETHEREUM standard miss settle settle' sample_plain(1)
      sample_table(1)]
  show ?thesis
    using primary_ETHEREUM standard miss settle settle' known sample_plain(1) sample_table(1)
    by (simp add: ens sample_names)
qed

subsection \<open>A strategy that throws\<close>

text \<open>
  C3. On the primary network, for an address that is not the name of a property that the
  cache object inherits, when every strategy settles, one of them by throwing and another
  one with a record, \<open>lookUpName\<close> returns a name and does not fail; when the cache does not
  answer, the name is that of the first strategy that produced a record. The fault counts
  as no match: the call gives the same outcome and the same service as it does when every
  throwing strategy reports no match instead. Every string that begins with \<^verbatim>\<open>0x\<close> is such
  an address (\<open>address_not_inherited\<close>).
\<close>

theorem lookUpName_fault_isolated:
  assumes primary: "chainID net = ''1''"
    and plain: "\<not> inheritedKey svc addr"
    and settle: "set [0..<length (addressResolvers svc)] \<subseteq> set (completion sch)"
    and fault: "i < length (outcomes svc sch addr net)" "outcomes svc sch addr net ! i = Rejected e"
    and success: "j < length (outcomes svc sch addr net)"
      "outcomes svc sch addr net ! j = Fulfilled (Some r)"
  shows "(\<exists>n. fst (lookUpName svc sch addr net checkCache) = Returned (Some n))
    \<and> (\<exists>w. firstProduced (outcomes svc sch addr net) = Some w
          \<and> (\<not> (checkCache \<and> cacheValid svc (clock sch) addr) \<longrightarrow>
               fst (lookUpName svc sch addr net checkCache) = Returned (Some (resolved_name w))))
    \<and> lookUpName (svc\<lparr>addressResolvers := map isolated (addressResolvers svc)\<rparr>) sch addr net checkCache
        = (fst (lookUpName svc sch addr net checkCache),
           (snd (lookUpName svc sch addr net checkCache))
             \<lparr>addressResolvers := map isolated (addressResolvers svc)\<rparr>)"
proof -
  have "\<not> list_all (\<lambda>result. produced result = None) (outcomes svc sch addr net)"
    using success by (auto simp: list_all_length produced_def)
  then obtain w where w: "firstProduced (outcomes svc sch addr net) = Some w"
    using firstProduced_None by fastforce
  have resolve: "fst (lookUpName_resolve svc sch addr net) = Returned (Some (resolved_name w))"
    by (simp add: lookUpName_resolve_settled[OF settle] w)
  have returns: "\<exists>n. fst (lookUpName svc sch addr net checkCache) = Returned (Some n)"
    using primary plain resolve by (auto simp: lookUpName_def inCache_def split: option.splits)
  have missed: "\<not> (checkCache \<and> cacheValid svc (clock sch) addr) \<longrightarrow>
      fst (lookUpName svc sch addr net checkCache) = Returned (Some (resolved_name w))"
    using primary plain resolve by (auto simp: lookUpName_miss)
  have same:
    "lookUpName (svc\<lparr>addressResolvers := map isolated (addressResolvers svc)\<rparr>) sch addr net checkCache
        = (fst (lookUpName svc sch addr net checkCache),
           (snd (lookUpName svc sch addr net checkCache))
             \<lparr>addressResolvers := map isolated (addressResolvers svc)\<rparr>)"
    using plain
    by (auto simp: lookUpName_def inCache_def inheritedKey_def lookUpName_resolve_isolated
        split: option.splits)
  from returns w missed same show ?thesis by blast
qed

text \<open>
  The service whose provider fails, on the address of the built-in table: the reverse
  lookup throws, the table produces its record, and the call returns the name of the table.
\<close>

theorem lookUpName_fault_isolated_witness:
  "chainID ETHEREUM = ''1''
   \<and> \<not> inheritedKey faultyService routerAddress
   \<and> set [0..<length (addressResolvers faultyService)] \<subseteq> set (completion sampleSchedule)
   \<and> 0 < length (outcomes faultyService sampleSchedule routerAddress ETHEREUM)
   \<and> outcomes faultyService sampleSchedule routerAddress ETHEREUM ! 0 = Rejected (Error ''rpc failure'')
   \<and> 2 < length (outcomes faultyService sampleSchedule routerAddress ETHEREUM)
   \<and> outcomes faultyService sampleSchedule routerAddress ETHEREUM ! 2 = Fulfilled (Some tableRecord)
   \<and> fst (lookUpName faultyService sampleSchedule routerAddress ETHEREUM True)
        = Returned (Some ''0x Router'')"
proof -
  have fault: "0 < length (outcomes faultyService sampleSchedule routerAddress ETHEREUM)"
    "outcomes faultyService sampleSchedule routerAddress ETHEREUM ! 0 = Rejected (Error ''rpc failure'')"
    by (simp_all add: faulty_outcomes)
  have success: "2 < length (outcomes faultyService sampleSchedule routerAddress ETHEREUM)"
    "outcomes faultyService sampleSchedule routerAddress ETHEREUM ! 2 = Fulfilled (Some tableRecord)"
    by (simp_all add: faulty_outcomes)
  have first: "firstProduced (outcomes faultyService sampleSchedule routerAddress ETHEREUM) = Some tableRecord"
    by (simp add: faulty_outcomes produced_def)
  from lookUpName_fault_isolated[OF primary_ETHEREUM sample_plain(1) sample_settle(2) fault success,
      of True]
  have "fst (lookUpName faultyService sampleSchedule routerAddress ETHEREUM True)
        = Returned (Some ''0x Router'')"
    using first sample_miss(2) sample_names by auto
  then show ?thesis using primary_ETHEREUM sample_plain(1) sample_settle(2) fault success by simp
qed

subsection \<open>Storing the winner and emitting the event\<close>

text \<open>
  C4. On the primary network, for an address that is not the name of a property that the
  cache object inherits, when the cache does not answer and every strategy settles, and
  \<open>r\<close> is the winning record: the call returns the name of \<open>r\<close>; the cache after the call
  is the cache before it with the entry of the address replaced by \<open>r\<close>, whatever the entry
  was; and the event \<open>resolvedName r\<close> is emitted exactly when the name of \<open>r\<close> differs from
  the name cached before, in particular when none was cached. Every string that begins
  with \<^verbatim>\<open>0x\<close> is such an address (\<open>address_not_inherited\<close>).
\<close>

theorem lookUpName_store_and_emit:
  assumes primary: "chainID net = ''1''"
    and plain: "\<not> inheritedKey svc addr"
    and miss: "\<not> (checkCache \<and> cacheValid svc (clock sch) addr)"
    and settle: "set [0..<length (addressResolvers svc)] \<subseteq> set (completion sch)"
    and winner: "firstProduced (outcomes svc sch addr net) = Some r"
  shows "fst (lookUpName svc sch addr net checkCache) = Returned (Some (resolved_name r))
    \<and> cachedResolvedNames (snd (lookUpName svc sch addr net checkCache))
        = (cachedResolvedNames svc)(addr \<mapsto> r)
    \<and> emitted (snd (lookUpName svc sch addr net checkCache))
        = emitted svc @
            (if map_option resolved_name (cachedResolvedNames svc addr) = Some (resolved_name r)
             then [] else [resolvedName r])
    \<and> (cachedResolvedNames svc addr = None \<longrightarrow>
         emitted (snd (lookUpName svc sch addr net checkCache)) = emitted svc @ [resolvedName r])"
proof -
  have "lookUpName svc sch addr net checkCache = lookUpName_resolve svc sch addr net"
    using primary plain miss by (rule lookUpName_miss)
  then show ?thesis
    by (simp add: lookUpName_resolve_settled[OF settle] winner)
qed

text \<open>
  The sample service starts with an empty cache: the record of the reverse lookup is
  stored and emitted. Resolved again, without the cache, when that record is already the
  entry, the service emits nothing, the name being the same; when the entry has another
  name, the new record is emitted.
\<close>

theorem lookUpName_store_and_emit_witness:
  "chainID ETHEREUM = ''1''
   \<and> \<not> inheritedKey sampleService routerAddress
   \<and> \<not> inheritedKey resolvedService routerAddress
   \<and> \<not> inheritedKey cachedService routerAddress
   \<and> \<not> (True \<and> cacheValid sampleService (clock sampleSchedule) routerAddress)
   \<and> set [0..<length (addressResolvers sampleService)] \<subseteq> set (completion sampleSchedule)
   \<and> firstProduced (outcomes sampleService sampleSchedule routerAddress ETHEREUM) = Some ensRecord
   \<and> fst (lookUpName sampleService sampleSchedule routerAddress ETHEREUM True)
        = Returned (Some ''router.eth'')
   \<and> cachedResolvedNames (snd (lookUpName sampleService sampleSchedule routerAddress ETHEREUM True))
        routerAddress = Some ensRecord
   \<and> emitted (snd (lookUpName sampleService sampleSchedule routerAddress ETHEREUM True))
        = [resolvedName ensRecord]
   \<and> cachedResolvedNames resolvedService routerAddress = Some ensRecord
   \<and> firstProduced (outcomes resolvedService sampleSchedule routerAddress ETHEREUM) = Some ensRecord
   \<and> emitted (snd (lookUpName resolvedService sampleSchedule routerAddress ETHEREUM False)) = []
   \<and> cachedResolvedNames cachedService routerAddress = Some staleRecord
   \<and> firstProduced (outcomes cachedService sampleSchedule routerAddress ETHEREUM) = Some ensRecord
   \<and> emitted (snd (lookUpName cachedService sampleSchedule routerAddress ETHEREUM False))
        = [resolvedName ensRecord]"
proof -
  have miss: "\<not> (True \<and> cacheValid sampleService (clock sampleSchedule) routerAddress)"
    by (rule sample_miss)
  have forced: "\<not> (False \<and> cacheValid svc (clock sampleSchedule) routerAddress)" for svc
    by simp
  have winner: "firstProduced (outcomes sampleService sampleSchedule routerAddress ETHEREUM) = Some ensRecord"
    "firstProduced (outcomes resolvedService sampleSchedule routerAddress ETHEREUM) = Some ensRecord"
    "firstProduced (outcomes cachedService sampleSchedule routerAddress ETHEREUM) = Some ensRecord"
    by (simp_all add: sample_outcomes cached_outcomes produced_def)
  have entries: "cachedResolvedNames resolvedService routerAddress = Some ensRecord"
    "cachedResolvedNames cachedService routerAddress = Some staleRecord"
    "emitted resolvedService = []" "emitted cachedService = []"
    by (simp_all add: resolvedService_def cachedService_def sample_fresh)
  from lookUpName_store_and_emit[OF primary_ETHEREUM sample_plain(1) miss sample_settle(1) winner(1)]
  have first:
    "fst (lookUpName sampleService sampleSchedule routerAddress ETHEREUM True)
        = Returned (Some ''router.eth'')"
    "cachedResolvedNames (snd (lookUpName sampleService sampleSchedule routerAddress ETHEREUM True))
        routerAddress = Some ensRecord"
    "emitted (snd (lookUpName sampleService sampleSchedule routerAddress ETHEREUM True))
        = [resolvedName ensRecord]"
    by (simp_all add: sample_names sample_fresh)
  from lookUpName_store_and_emit[OF primary_ETHEREUM sample_plain(1) forced sample_settle(4) winner(2)]
  have again: "emitted (snd (lookUpName resolvedService sampleSchedule routerAddress ETHEREUM False)) = []"
    by (simp add: entries)
  from lookUpName_store_and_emit[OF primary_ETHEREUM sample_plain(1) forced sample_settle(3) winner(3)]
  have renamed: "emitted (snd (lookUpName cachedService sampleSchedule routerAddress ETHEREUM False))
        = [resolvedName ensRecord]"
    by (simp add: entries sample_names)
  from primary_ETHEREUM miss sample_settle(1) winner first entries(1,2) again renamed
  show ?thesis by (simp add: sample_plain)
qed

subsection \<open>The validity window of a cache entry\<close>

text \<open>
  C5, as the code has it. On the primary network, with the cache in use and an entry for
  the address: when the clock is not after the expiry of the entry (\<open>now \<le> expiresAt\<close>),
  \<open>lookUpName\<close> returns the cached name and leaves the service as it was, so that no
  strategy is invoked; when the expiry is before the clock (\<open>expiresAt < now\<close>), the call
  does what it does without the cache, and every strategy is invoked.
\<close>

theorem lookUpName_cache_window:
  assumes primary: "chainID net = ''1''"
    and entry: "cachedResolvedNames svc addr = Some cached"
  shows "(clock sch \<le> resolved_expiresAt cached \<longrightarrow>
            lookUpName svc sch addr net True = (Returned (Some (resolved_name cached)), svc))
    \<and> (resolved_expiresAt cached < clock sch \<longrightarrow>
            lookUpName svc sch addr net True = lookUpName svc sch addr net False
          \<and> calls (snd (lookUpName svc sch addr net True)) = calls svc @ invoked svc addr net)"
proof (intro conjI impI)
  assume "clock sch \<le> resolved_expiresAt cached"
  with primary entry
  show "lookUpName svc sch addr net True = (Returned (Some (resolved_name cached)), svc)"
    by (simp add: lookUpName_hit)
next
  assume old: "resolved_expiresAt cached < clock sch"
  with primary entry
  show "lookUpName svc sch addr net True = lookUpName svc sch addr net False"
    by (simp add: lookUpName_def inCache_def)
  from old primary entry
  have eq: "lookUpName svc sch addr net True = lookUpName_resolve svc sch addr net"
    by (simp add: lookUpName_def inCache_def)
  show "calls (snd (lookUpName svc sch addr net True)) = calls svc @ invoked svc addr net"
  proof (cases "set [0..<length (addressResolvers svc)] \<subseteq> set (completion sch)")
    case True
    then show ?thesis
      unfolding eq by (simp add: lookUpName_resolve_settled split: option.splits)
  next
    case False
    then obtain i where "i < length (addressResolvers svc)" "i \<notin> set (completion sch)"
      using unsettled_position by blast
    then show ?thesis
      unfolding eq by (simp add: lookUpName_resolve_unsettled)
  qed
qed

text \<open>
  The service with the entry that expires at 5000: at clock 5000 the entry answers, at
  clock 5001 the three strategies are invoked.
\<close>

theorem lookUpName_cache_window_witness:
  "chainID ETHEREUM = ''1''
   \<and> cachedResolvedNames cachedService routerAddress = Some staleRecord
   \<and> clock sampleSchedule \<le> resolved_expiresAt staleRecord
   \<and> fst (lookUpName cachedService sampleSchedule routerAddress ETHEREUM True)
        = Returned (Some ''old.eth'')
   \<and> calls (snd (lookUpName cachedService sampleSchedule routerAddress ETHEREUM True))
        = calls cachedService
   \<and> resolved_expiresAt staleRecord < clock (sampleSchedule\<lparr>clock := 5001\<rparr>)
   \<and> calls (snd (lookUpName cachedService (sampleSchedule\<lparr>clock := 5001\<rparr>) routerAddress ETHEREUM True))
        = calls cachedService @ invoked cachedService routerAddress ETHEREUM"
proof -
  have entry: "cachedResolvedNames cachedService routerAddress = Some staleRecord"
    by (simp add: cachedService_def)
  have fresh: "clock sampleSchedule \<le> resolved_expiresAt staleRecord"
    by (simp add: sampleSchedule_def staleRecord_def)
  have old: "resolved_expiresAt staleRecord < clock (sampleSchedule\<lparr>clock := 5001\<rparr>)"
    by (simp add: staleRecord_def)
  from lookUpName_cache_window[OF primary_ETHEREUM entry, of sampleSchedule] fresh
  have hit: "lookUpName cachedService sampleSchedule routerAddress ETHEREUM True
      = (Returned (Some (resolved_name staleRecord)), cachedService)"
    by blast
  from lookUpName_cache_window[OF primary_ETHEREUM entry, of "sampleSchedule\<lparr>clock := 5001\<rparr>"] old
  have expired:
    "calls (snd (lookUpName cachedService (sampleSchedule\<lparr>clock := 5001\<rparr>) routerAddress ETHEREUM True))
        = calls cachedService @ invoked cachedService routerAddress ETHEREUM"
    by blast
  show ?thesis
    using primary_ETHEREUM entry fresh old expired by (simp add: hit sample_names)
qed

text \<open>
  The statement of C5 with the strict bound fails at the boundary: the entry expires at
  5000, which is not in the future of the clock 5000, and the call still answers from the
  cache without invoking a strategy.
\<close>

theorem lookUpName_expiry_boundary:
  "\<not> clock sampleSchedule < resolved_expiresAt staleRecord
   \<and> cachedResolvedNames cachedService routerAddress = Some staleRecord
   \<and> fst (lookUpName cachedService sampleSchedule routerAddress ETHEREUM True)
        = Returned (Some ''old.eth'')
   \<and> calls (snd (lookUpName cachedService sampleSchedule routerAddress ETHEREUM True)) = []"
  by code_simp

subsection \<open>No strategy produces a record\<close>

text \<open>
  C8. On the primary network, for an address that is not the name of a property that the
  cache object inherits, when the cache does not answer, every strategy settles and none
  produces a record (each reports no match or throws), \<open>lookUpName\<close> returns "not found"
  and leaves both caches and the emitted events as they were. Every string that begins
  with \<^verbatim>\<open>0x\<close> is such an address (\<open>address_not_inherited\<close>).
\<close>

theorem lookUpName_not_found_frame:
  assumes primary: "chainID net = ''1''"
    and plain: "\<not> inheritedKey svc addr"
    and miss: "\<not> (checkCache \<and> cacheValid svc (clock sch) addr)"
    and settle: "set [0..<length (addressResolvers svc)] \<subseteq> set (completion sch)"
    and none: "list_all (\<lambda>result. produced result = None) (outcomes svc sch addr net)"
  shows "fst (lookUpName svc sch addr net checkCache) = Returned None
    \<and> cachedResolvedNames (snd (lookUpName svc sch addr net checkCache)) = cachedResolvedNames svc
    \<and> cachedEIP155AvatarURLs (snd (lookUpName svc sch addr net checkCache))
        = cachedEIP155AvatarURLs svc
    \<and> emitted (snd (lookUpName svc sch addr net checkCache)) = emitted svc"
proof -
  have "lookUpName svc sch addr net checkCache = lookUpName_resolve svc sch addr net"
    using primary plain miss by (rule lookUpName_miss)
  moreover have "firstProduced (outcomes svc sch addr net) = None"
    using none by (simp add: firstProduced_None)
  ultimately show ?thesis
    by (simp add: lookUpName_resolve_settled[OF settle])
qed

text \<open>
  The service whose provider fails, on an address that no table knows: the reverse lookup
  throws, the two tables report no match.
\<close>

theorem lookUpName_not_found_frame_witness:
  "chainID ETHEREUM = ''1''
   \<and> \<not> inheritedKey faultyService ''0x00''
   \<and> \<not> (True \<and> cacheValid faultyService (clock sampleSchedule) ''0x00'')
   \<and> set [0..<length (addressResolvers faultyService)] \<subseteq> set (completion sampleSchedule)
   \<and> list_all (\<lambda>result. produced result = None) (outcomes faultyService sampleSchedule ''0x00'' ETHEREUM)
   \<and> fst (lookUpName faultyService sampleSchedule ''0x00'' ETHEREUM True) = Returned None
   \<and> cachedResolvedNames (snd (lookUpName faultyService sampleSchedule ''0x00'' ETHEREUM True)) ''0x00''
        = None
   \<and> emitted (snd (lookUpName faultyService sampleSchedule ''0x00'' ETHEREUM True)) = []"
proof -
  have miss: "\<not> (True \<and> cacheValid faultyService (clock sampleSchedule) ''0x00'')"
    by (rule sample_miss)
  have none: "list_all (\<lambda>result. produced result = None)
      (outcomes faultyService sampleSchedule ''0x00'' ETHEREUM)"
    by (simp add: faulty_outcomes_unknown produced_def)
  from lookUpName_not_found_frame[OF primary_ETHEREUM sample_plain(3) miss sample_settle(2) none]
  show ?thesis
    using primary_ETHEREUM miss sample_settle(2) none by (simp add: sample_fresh sample_plain)
qed

subsection \<open>The key of the name cache\<close>

lemma lookUpName_resolve_cache:
  "fst (lookUpName_resolve (svc\<lparr>cachedResolvedNames := m\<rparr>) sch addr net)
     = fst (lookUpName_resolve svc sch addr net)"
proof (cases "set [0..<length (addressResolvers svc)] \<subseteq> set (completion sch)")
  case True
  then have "set [0..<length (addressResolvers (svc\<lparr>cachedResolvedNames := m\<rparr>))] \<subseteq> set (completion sch)"
    by simp
  from lookUpName_resolve_settled[OF this] lookUpName_resolve_settled[OF True]
  show ?thesis
    by (simp add: outcomes_cache split: option.splits)
next
  case False
  then obtain i where i: "i < length (addressResolvers svc)" "i \<notin> set (completion sch)"
    using unsettled_position by blast
  then have "i < length (addressResolvers (svc\<lparr>cachedResolvedNames := m\<rparr>))" by simp
  from lookUpName_resolve_unsettled[OF this i(2)] lookUpName_resolve_unsettled[OF i]
  show ?thesis by simp
qed

lemma lookUpName_resolve_frame:
  assumes "key \<noteq> addr"
  shows "cachedResolvedNames (snd (lookUpName_resolve svc sch addr net)) key = cachedResolvedNames svc key"
proof (cases "set [0..<length (addressResolvers svc)] \<subseteq> set (completion sch)")
  case True
  then show ?thesis
    using assms by (simp add: lookUpName_resolve_settled split: option.splits)
next
  case False
  then obtain i where "i < length (addressResolvers svc)" "i \<notin> set (completion sch)"
    using unsettled_position by blast
  then show ?thesis
    by (simp add: lookUpName_resolve_unsettled)
qed

lemma same_account: "normalizeEVMAddress routerAddress = normalizeEVMAddress lowerRouterAddress"
  by code_simp

lemma other_spelling: "lowerRouterAddress \<noteq> routerAddress"
  by code_simp

text \<open>
  C9, as the code has it. \<open>lookUpName\<close> reads and writes the name cache at the address
  string exactly as it was passed, without normalising it: no entry at another key
  changes; the outcome depends on the cache only through the entry at that string and
  through whether that string is the name of a property that the cache object inherits;
  when it is not, the winning record is stored at that string. Only the lookups of the
  address-book and known-contract strategies use the normalised address: two spellings of
  one address, whose normalised form is not the name of a property of \<^verbatim>\<open>Object.prototype\<close>,
  get the same name from them. Every string that begins with \<^verbatim>\<open>0x\<close> is neither kind of
  name (\<open>address_not_inherited\<close>, \<open>address_not_prototype_key\<close>).
\<close>

theorem lookUpName_cache_key:
  "(key \<noteq> addr \<longrightarrow>
      cachedResolvedNames (snd (lookUpName svc sch addr net checkCache)) key
        = cachedResolvedNames svc key)
   \<and> (m addr = cachedResolvedNames svc addr
        \<and> inheritedKey (svc\<lparr>cachedResolvedNames := m\<rparr>) addr = inheritedKey svc addr \<longrightarrow>
      fst (lookUpName (svc\<lparr>cachedResolvedNames := m\<rparr>) sch addr net checkCache)
        = fst (lookUpName svc sch addr net checkCache))
   \<and> (chainID net = ''1'' \<and> set [0..<length (addressResolvers svc)] \<subseteq> set (completion sch)
        \<and> \<not> inheritedKey svc addr
        \<and> \<not> (checkCache \<and> cacheValid svc (clock sch) addr)
        \<and> firstProduced (outcomes svc sch addr net) = Some r \<longrightarrow>
      cachedResolvedNames (snd (lookUpName svc sch addr net checkCache)) addr = Some r)
   \<and> (normalizeEVMAddress a = normalizeEVMAddress b
        \<and> normalizeEVMAddress a \<notin> set objectPrototypeKeys \<longrightarrow>
      map_option resolved_name (produced (addressBookResolverFor ps now \<lparr> address = a, network = net \<rparr>))
        = map_option resolved_name (produced (addressBookResolverFor ps now \<lparr> address = b, network = net \<rparr>))
      \<and> map_option resolved_name (produced (knownContractResolverFor ps now \<lparr> address = a, network = net \<rparr>))
        = map_option resolved_name (produced (knownContractResolverFor ps now \<lparr> address = b, network = net \<rparr>)))"
proof (intro conjI impI)
  assume "key \<noteq> addr"
  then show "cachedResolvedNames (snd (lookUpName svc sch addr net checkCache)) key
        = cachedResolvedNames svc key"
    by (simp add: lookUpName_def lookUpName_resolve_frame split: option.splits)
next
  assume "m addr = cachedResolvedNames svc addr
        \<and> inheritedKey (svc\<lparr>cachedResolvedNames := m\<rparr>) addr = inheritedKey svc addr"
  then have "m addr = cachedResolvedNames svc addr"
    "inCache (svc\<lparr>cachedResolvedNames := m\<rparr>) addr = inCache svc addr"
    by (simp_all add: inCache_def)
  then show "fst (lookUpName (svc\<lparr>cachedResolvedNames := m\<rparr>) sch addr net checkCache)
        = fst (lookUpName svc sch addr net checkCache)"
    by (simp add: lookUpName_def lookUpName_resolve_cache split: option.splits)
next
  assume a: "chainID net = ''1'' \<and> set [0..<length (addressResolvers svc)] \<subseteq> set (completion sch)
        \<and> \<not> inheritedKey svc addr
        \<and> \<not> (checkCache \<and> cacheValid svc (clock sch) addr)
        \<and> firstProduced (outcomes svc sch addr net) = Some r"
  then have "lookUpName svc sch addr net checkCache = lookUpName_resolve svc sch addr net"
    by (intro lookUpName_miss) simp_all
  with a show "cachedResolvedNames (snd (lookUpName svc sch addr net checkCache)) addr = Some r"
    by (simp add: lookUpName_resolve_settled)
next
  assume "normalizeEVMAddress a = normalizeEVMAddress b
        \<and> normalizeEVMAddress a \<notin> set objectPrototypeKeys"
  then show "map_option resolved_name (produced (addressBookResolverFor ps now \<lparr> address = a, network = net \<rparr>))
        = map_option resolved_name (produced (addressBookResolverFor ps now \<lparr> address = b, network = net \<rparr>))"
    by (simp add: addressBookResolverFor_def produced_def split: option.splits)
next
  assume "normalizeEVMAddress a = normalizeEVMAddress b
        \<and> normalizeEVMAddress a \<notin> set objectPrototypeKeys"
  then show "map_option resolved_name (produced (knownContractResolverFor ps now \<lparr> address = a, network = net \<rparr>))
        = map_option resolved_name (produced (knownContractResolverFor ps now \<lparr> address = b, network = net \<rparr>))"
    by (simp add: knownContractResolverFor_def produced_def split: option.splits)
qed

text \<open>
  The sample service asked for the address in the spelling of the source: the entry is
  stored under that spelling and nothing is stored under the lower-case spelling, which
  the contract table nevertheless resolves to the same name.
\<close>

theorem lookUpName_cache_key_witness:
  "lowerRouterAddress \<noteq> routerAddress
   \<and> cachedResolvedNames (snd (lookUpName sampleService sampleSchedule routerAddress ETHEREUM True))
        lowerRouterAddress = None
   \<and> Map.empty routerAddress = cachedResolvedNames sampleService routerAddress
   \<and> inheritedKey (sampleService\<lparr>cachedResolvedNames := Map.empty\<rparr>) routerAddress
        = inheritedKey sampleService routerAddress
   \<and> chainID ETHEREUM = ''1''
   \<and> set [0..<length (addressResolvers sampleService)] \<subseteq> set (completion sampleSchedule)
   \<and> \<not> inheritedKey sampleService routerAddress
   \<and> \<not> (True \<and> cacheValid sampleService (clock sampleSchedule) routerAddress)
   \<and> firstProduced (outcomes sampleService sampleSchedule routerAddress ETHEREUM) = Some ensRecord
   \<and> cachedResolvedNames (snd (lookUpName sampleService sampleSchedule routerAddress ETHEREUM True))
        routerAddress = Some ensRecord
   \<and> normalizeEVMAddress routerAddress = normalizeEVMAddress lowerRouterAddress
   \<and> normalizeEVMAddress routerAddress \<notin> set objectPrototypeKeys
   \<and> map_option resolved_name
        (produced (knownContractResolverFor thePreferenceService 0 \<lparr> address = routerAddress, network = ETHEREUM \<rparr>))
       = map_option resolved_name
        (produced (knownContractResolverFor thePreferenceService 0 \<lparr> address = lowerRouterAddress, network = ETHEREUM \<rparr>))"
proof -
  have miss: "\<not> (True \<and> cacheValid sampleService (clock sampleSchedule) routerAddress)"
    by (rule sample_miss)
  have winner: "firstProduced (outcomes sampleService sampleSchedule routerAddress ETHEREUM) = Some ensRecord"
    by (simp add: sample_outcomes produced_def)
  have empty: "Map.empty routerAddress = cachedResolvedNames sampleService routerAddress"
    by (simp add: sample_fresh)
  from lookUpName_cache_key[of lowerRouterAddress routerAddress sampleService sampleSchedule ETHEREUM True
      Map.empty ensRecord routerAddress lowerRouterAddress thePreferenceService 0]
  show ?thesis
    using other_spelling empty primary_ETHEREUM sample_settle(1) miss winner same_account
      sample_table(1)
    by (simp add: sample_fresh sample_plain)
qed

text \<open>
  The statement of C9 fails: the two spellings are the same account, the first call stores
  its record under the spelling it was given, a second call with that spelling is answered
  from the cache (no new call), and a second call with the lower-case spelling finds no
  entry and invokes the strategies again.
\<close>

theorem lookUpName_spellings_apart:
  "normalizeEVMAddress routerAddress = normalizeEVMAddress lowerRouterAddress
   \<and> cachedResolvedNames (snd (lookUpName sampleService sampleSchedule routerAddress ETHEREUM True))
        routerAddress = Some ensRecord
   \<and> cachedResolvedNames (snd (lookUpName sampleService sampleSchedule routerAddress ETHEREUM True))
        lowerRouterAddress = None
   \<and> calls (snd (lookUpName (snd (lookUpName sampleService sampleSchedule routerAddress ETHEREUM True))
               sampleSchedule routerAddress ETHEREUM True))
       = calls (snd (lookUpName sampleService sampleSchedule routerAddress ETHEREUM True))
   \<and> calls (snd (lookUpName (snd (lookUpName sampleService sampleSchedule routerAddress ETHEREUM True))
               sampleSchedule lowerRouterAddress ETHEREUM True))
       = calls (snd (lookUpName sampleService sampleSchedule routerAddress ETHEREUM True))
           @ invoked sampleService lowerRouterAddress ETHEREUM"
  by code_simp

subsection \<open>The expiry of a fresh record\<close>

text \<open>
  C10. A record produced by any of the three strategies expires ten seconds after the
  time the strategy read the clock (\<open>expiresAt = now + 10 * SECOND\<close>). Hence the entry
  that a call of \<open>lookUpName\<close> of the constructed service stores expires ten seconds
  after the clock reading of one of the three strategies.
\<close>

theorem resolver_expiry:
  "(ensAddressResolverFor cs now aon = Fulfilled (Some r) \<longrightarrow>
      resolved_expiresAt r = now + 10 * SECOND)
   \<and> (addressBookResolverFor ps now aon = Fulfilled (Some r) \<longrightarrow>
      resolved_expiresAt r = now + 10 * SECOND)
   \<and> (knownContractResolverFor ps now aon = Fulfilled (Some r) \<longrightarrow>
      resolved_expiresAt r = now + 10 * SECOND)
   \<and> (chainID net = ''1'' \<and> standardResolvers svc \<and> set [0..<3] \<subseteq> set (completion sch)
        \<and> \<not> (checkCache \<and> cacheValid svc (clock sch) addr)
        \<and> fst (lookUpName svc sch addr net checkCache) = Returned (Some n) \<longrightarrow>
      (\<exists>i < 3. map_option resolved_expiresAt
                  (cachedResolvedNames (snd (lookUpName svc sch addr net checkCache)) addr)
               = Some (resolverClock sch i + 10 * SECOND)))"
proof (intro conjI impI)
  assume "ensAddressResolverFor cs now aon = Fulfilled (Some r)"
  then show "resolved_expiresAt r = now + 10 * SECOND"
    using ens_record by (simp add: MINIMUM_RECORD_EXPIRY_def)
next
  assume "addressBookResolverFor ps now aon = Fulfilled (Some r)"
  then show "resolved_expiresAt r = now + 10 * SECOND"
    using book_record by (simp add: MINIMUM_RECORD_EXPIRY_def)
next
  assume "knownContractResolverFor ps now aon = Fulfilled (Some r)"
  then show "resolved_expiresAt r = now + 10 * SECOND"
    using known_record by (simp add: MINIMUM_RECORD_EXPIRY_def)
next
  assume a: "chainID net = ''1'' \<and> standardResolvers svc \<and> set [0..<3] \<subseteq> set (completion sch)
        \<and> \<not> (checkCache \<and> cacheValid svc (clock sch) addr)
        \<and> fst (lookUpName svc sch addr net checkCache) = Returned (Some n)"
  then have standard: "standardResolvers svc" by simp
  then have len: "length (addressResolvers svc) = 3"
    by (simp add: standardResolvers_def)
  from a have settled: "set [0..<length (addressResolvers svc)] \<subseteq> set (completion sch)"
    using len by simp
  from a have resolve: "lookUpName svc sch addr net checkCache = lookUpName_resolve svc sch addr net"
    by (intro lookUpName_returned[where x = "Some n"]) simp_all
  from a have "fst (lookUpName_resolve svc sch addr net) = Returned (Some n)"
    unfolding resolve by simp
  then obtain w where w: "firstProduced (outcomes svc sch addr net) = Some w"
    by (cases "firstProduced (outcomes svc sch addr net)")
       (simp_all add: lookUpName_resolve_settled[OF settled])
  from firstProduced_Some[OF w] obtain k where k: "k < length (outcomes svc sch addr net)"
      "produced (outcomes svc sch addr net ! k) = Some w"
    by blast
  from k(2) have at_k: "outcomes svc sch addr net ! k = Fulfilled (Some w)"
    by (simp add: produced_Some)
  have "k < 3" using k(1) len by (simp add: outcomes_def)
  then consider "k = 0" | "k = 1" | "k = 2" by linarith
  then have "resolved_expiresAt w = resolverClock sch k + MINIMUM_RECORD_EXPIRY"
  proof cases
    case 1
    with at_k show ?thesis
      using ens_record by (simp add: outcomes_standard[OF standard])
  next
    case 2
    with at_k show ?thesis
      using book_record by (simp add: outcomes_standard[OF standard])
  next
    case 3
    with at_k show ?thesis
      using known_record by (simp add: outcomes_standard[OF standard])
  qed
  moreover have "cachedResolvedNames (snd (lookUpName svc sch addr net checkCache)) addr = Some w"
    unfolding resolve by (simp add: lookUpName_resolve_settled[OF settled] w)
  ultimately show "\<exists>i < 3. map_option resolved_expiresAt
                  (cachedResolvedNames (snd (lookUpName svc sch addr net checkCache)) addr)
               = Some (resolverClock sch i + 10 * SECOND)"
    using \<open>k < 3\<close> by (auto simp: MINIMUM_RECORD_EXPIRY_def)
qed

text \<open>
  The three strategies at clock readings 6000, 6001 and 6002, and the entry the sample
  service stores.
\<close>

theorem resolver_expiry_witness:
  "ensAddressResolverFor (chainWith (Fulfilled (Some ''router.eth''))) 6000
       \<lparr> address = routerAddress, network = ETHEREUM \<rparr> = Fulfilled (Some ensRecord)
   \<and> resolved_expiresAt ensRecord = 6000 + 10 * SECOND
   \<and> addressBookResolverFor bookPreferences 6001
       \<lparr> address = routerAddress, network = ETHEREUM \<rparr> = Fulfilled (Some bookRecord)
   \<and> resolved_expiresAt bookRecord = 6001 + 10 * SECOND
   \<and> knownContractResolverFor thePreferenceService 6002
       \<lparr> address = routerAddress, network = ETHEREUM \<rparr> = Fulfilled (Some tableRecord)
   \<and> resolved_expiresAt tableRecord = 6002 + 10 * SECOND
   \<and> chainID ETHEREUM = ''1'' \<and> standardResolvers sampleService
   \<and> set [0..<3] \<subseteq> set (completion sampleSchedule)
   \<and> \<not> (True \<and> cacheValid sampleService (clock sampleSchedule) routerAddress)
   \<and> fst (lookUpName sampleService sampleSchedule routerAddress ETHEREUM True)
        = Returned (Some ''router.eth'')
   \<and> (\<exists>i < 3. map_option resolved_expiresAt
                 (cachedResolvedNames
                    (snd (lookUpName sampleService sampleSchedule routerAddress ETHEREUM True))
                    routerAddress)
               = Some (resolverClock sampleSchedule i + 10 * SECOND))"
proof -
  have ens: "ensAddressResolverFor (chainWith (Fulfilled (Some ''router.eth''))) 6000
       \<lparr> address = routerAddress, network = ETHEREUM \<rparr> = Fulfilled (Some ensRecord)"
    by code_simp
  have book: "addressBookResolverFor bookPreferences 6001
       \<lparr> address = routerAddress, network = ETHEREUM \<rparr> = Fulfilled (Some bookRecord)"
    by code_simp
  have known: "knownContractResolverFor thePreferenceService 6002
       \<lparr> address = routerAddress, network = ETHEREUM \<rparr> = Fulfilled (Some tableRecord)"
    by code_simp
  have standard: "standardResolvers sampleService"
    by (simp add: sampleService_def standardResolvers_new)
  have settle: "set [0..<3] \<subseteq> set (completion sampleSchedule)" by code_simp
  have miss: "\<not> (True \<and> cacheValid sampleService (clock sampleSchedule) routerAddress)"
    by (rule sample_miss)
  have returned: "fst (lookUpName sampleService sampleSchedule routerAddress ETHEREUM True)
        = Returned (Some ''router.eth'')"
    by (simp add: lookUpName_miss[OF primary_ETHEREUM sample_plain(1) miss]
        lookUpName_resolve_settled[OF sample_settle(1)] sample_outcomes produced_def sample_names)
  from resolver_expiry[of "chainWith (Fulfilled (Some ''router.eth''))" 6000
      "\<lparr> address = routerAddress, network = ETHEREUM \<rparr>" ensRecord] ens
  have c1: "resolved_expiresAt ensRecord = 6000 + 10 * SECOND" by blast
  from resolver_expiry[of _ 6001 "\<lparr> address = routerAddress, network = ETHEREUM \<rparr>" bookRecord
      bookPreferences] book
  have c2: "resolved_expiresAt bookRecord = 6001 + 10 * SECOND" by blast
  from resolver_expiry[of _ 6002 "\<lparr> address = routerAddress, network = ETHEREUM \<rparr>" tableRecord
      thePreferenceService] known
  have c3: "resolved_expiresAt tableRecord = 6002 + 10 * SECOND" by blast
  from resolver_expiry[of _ _ _ _ _ ETHEREUM sampleService sampleSchedule True routerAddress "''router.eth''"]
    primary_ETHEREUM standard settle miss returned
  have c4: "\<exists>i < 3. map_option resolved_expiresAt
                 (cachedResolvedNames
                    (snd (lookUpName sampleService sampleSchedule routerAddress ETHEREUM True))
                    routerAddress)
               = Some (resolverClock sampleSchedule i + 10 * SECOND)"
    by blast
  from ens book known c1 c2 c3 primary_ETHEREUM standard settle miss returned c4
  show ?thesis by blast
qed

section \<open>Forward resolution\<close>

lemma hexShapeRegex_hexShaped: "regex_test hexShapeRegex a = hexShaped a"
proof -
  have "(\<exists>t. a = ''0x'' @ t \<and> list_all (\<lambda>c. inClass c alnum) t) = hexShaped a"
    by (auto simp: hexShaped_def prefix_def)
  then show ?thesis by (simp add: hexShapeRegex_shape)
qed

lemma hexShaped_nonempty: "hexShaped a \<Longrightarrow> a \<noteq> []"
  by (auto simp: hexShaped_def)

text \<open>
  C7. \<open>lookUpEthereumAddress\<close> fails with the invalid-name error for every name that does
  not end in \<^verbatim>\<open>.eth\<close>, and the service is then as before: no provider call was made. For
  a name that ends in \<^verbatim>\<open>.eth\<close>, after the one forward lookup: when the lookup returns no
  address, or a value that is not \<^verbatim>\<open>0x\<close> followed by letters and digits, the call returns
  "not found" and nothing is emitted; otherwise it returns the normalised address and
  emits one \<open>resolvedAddress\<close> event that carries the name, the normalised address on the
  primary network and the system ENS.
\<close>

theorem lookUpEthereumAddress_cases:
  fixes svc :: NameService and name :: DomainName
  defines "asked \<equiv> svc\<lparr>calls := calls svc @ [ResolveNameCall name]\<rparr>"
  defines "forward \<equiv> resolveName (providers_ethereum (chainService svc)) name"
  shows "(\<not> suffix ''.eth'' name \<longrightarrow>
            lookUpEthereumAddress svc name
              = (Threw (Error ''Only .eth names can be resolved today.''), svc))
    \<and> (suffix ''.eth'' name \<and> forward = Fulfilled None \<longrightarrow>
            lookUpEthereumAddress svc name = (Returned None, asked))
    \<and> (suffix ''.eth'' name \<and> forward = Fulfilled (Some a) \<and> \<not> hexShaped a \<longrightarrow>
            lookUpEthereumAddress svc name = (Returned None, asked))
    \<and> (suffix ''.eth'' name \<and> forward = Fulfilled (Some a) \<and> hexShaped a \<longrightarrow>
            lookUpEthereumAddress svc name
              = (Returned (Some (normalizeEVMAddress a)),
                 asked\<lparr>emitted := emitted svc @
                   [resolvedAddress
                      \<lparr> addr_from_name = name,
                        addr_resolved_addressNetwork =
                          \<lparr> address = normalizeEVMAddress a, network = ETHEREUM \<rparr>,
                        addr_system = ENS \<rparr>]\<rparr>))"
  using hexShaped_nonempty[of a]
  by (auto simp: lookUpEthereumAddress_def dotEthRegex_suffix hexShapeRegex_hexShaped
      asked_def forward_def Let_def)

text \<open>
  The name \<^verbatim>\<open>vitalik\<close> is refused; \<^verbatim>\<open>foo.eth\<close> is not found when the provider returns
  nothing or \<^verbatim>\<open>not hex\<close>, and resolves to \<^verbatim>\<open>0xabc123\<close> when the provider returns
  \<^verbatim>\<open>0xAbC123\<close>.
\<close>

theorem lookUpEthereumAddress_cases_witness:
  "\<not> suffix ''.eth'' ''vitalik''
   \<and> fst (lookUpEthereumAddress (forwardService (Fulfilled (Some ''0xAbC123''))) ''vitalik'')
       = Threw (Error ''Only .eth names can be resolved today.'')
   \<and> calls (snd (lookUpEthereumAddress (forwardService (Fulfilled (Some ''0xAbC123''))) ''vitalik'')) = []
   \<and> suffix ''.eth'' ''foo.eth''
   \<and> resolveName (providers_ethereum (chainService (forwardService (Fulfilled None)))) ''foo.eth''
       = Fulfilled None
   \<and> fst (lookUpEthereumAddress (forwardService (Fulfilled None)) ''foo.eth'') = Returned None
   \<and> resolveName (providers_ethereum (chainService (forwardService (Fulfilled (Some ''not hex''))))) ''foo.eth''
       = Fulfilled (Some ''not hex'')
   \<and> \<not> hexShaped ''not hex''
   \<and> fst (lookUpEthereumAddress (forwardService (Fulfilled (Some ''not hex''))) ''foo.eth'') = Returned None
   \<and> resolveName (providers_ethereum (chainService (forwardService (Fulfilled (Some ''0xAbC123''))))) ''foo.eth''
       = Fulfilled (Some ''0xAbC123'')
   \<and> hexShaped ''0xAbC123''
   \<and> fst (lookUpEthereumAddress (forwardService (Fulfilled (Some ''0xAbC123''))) ''foo.eth'')
       = Returned (Some ''0xabc123'')
   \<and> emitted (snd (lookUpEthereumAddress (forwardService (Fulfilled (Some ''0xAbC123''))) ''foo.eth''))
       = [resolvedAddress
            \<lparr> addr_from_name = ''foo.eth'',
              addr_resolved_addressNetwork = \<lparr> address = ''0xabc123'', network = ETHEREUM \<rparr>,
              addr_system = ENS \<rparr>]"
proof -
  have invalid: "\<not> suffix ''.eth'' ''vitalik''" by code_simp
  have valid: "suffix ''.eth'' ''foo.eth''" by code_simp
  have forward: "resolveName (providers_ethereum (chainService (forwardService f))) n = f" for f n
    by (simp add: forwardService_def NameService_new_def Let_def)
  have fresh: "emitted (forwardService f) = []" "calls (forwardService f) = []" for f
    by (simp_all add: forwardService_def NameService_new_def Let_def)
  have shapes: "\<not> hexShaped ''not hex''" "hexShaped ''0xAbC123''" by code_simp+
  have lower: "normalizeEVMAddress ''0xAbC123'' = ''0xabc123''" by code_simp
  from lookUpEthereumAddress_cases[of "''vitalik''" "forwardService (Fulfilled (Some ''0xAbC123''))"] invalid
  have c1: "lookUpEthereumAddress (forwardService (Fulfilled (Some ''0xAbC123''))) ''vitalik''
      = (Threw (Error ''Only .eth names can be resolved today.''), forwardService (Fulfilled (Some ''0xAbC123'')))"
    by blast
  from lookUpEthereumAddress_cases[of "''foo.eth''" "forwardService (Fulfilled None)"] valid forward
  have c2: "fst (lookUpEthereumAddress (forwardService (Fulfilled None)) ''foo.eth'') = Returned None"
    by simp
  from lookUpEthereumAddress_cases[of "''foo.eth''" "forwardService (Fulfilled (Some ''not hex''))" "''not hex''"]
    valid forward shapes
  have c3: "fst (lookUpEthereumAddress (forwardService (Fulfilled (Some ''not hex''))) ''foo.eth'') = Returned None"
    by simp
  from lookUpEthereumAddress_cases[of "''foo.eth''" "forwardService (Fulfilled (Some ''0xAbC123''))" "''0xAbC123''"]
    valid forward shapes
  have c4: "lookUpEthereumAddress (forwardService (Fulfilled (Some ''0xAbC123''))) ''foo.eth''
              = (Returned (Some (normalizeEVMAddress ''0xAbC123'')),
                 (forwardService (Fulfilled (Some ''0xAbC123'')))
                 \<lparr>calls := calls (forwardService (Fulfilled (Some ''0xAbC123''))) @ [ResolveNameCall ''foo.eth''],
                  emitted := emitted (forwardService (Fulfilled (Some ''0xAbC123''))) @
                   [resolvedAddress
                      \<lparr> addr_from_name = ''foo.eth'',
                        addr_resolved_addressNetwork =
                          \<lparr> address = normalizeEVMAddress ''0xAbC123'', network = ETHEREUM \<rparr>,
                        addr_system = ENS \<rparr>]\<rparr>)"
    by simp
  show ?thesis
    using invalid valid shapes by (simp add: c1 c2 c3 c4 forward fresh lower)
qed

section \<open>Avatar resolution\<close>

lemma split_on_Nil: "split_on sep [] = [[]]"
  by (simp add: split_on_def)

lemma split_on_nonempty: "split_on sep s \<noteq> []"
  by (induction s) (auto simp: split_on_def split: list.splits)

lemma split_on_Cons:
  "split_on sep (c # s) =
     (if sep c then [] # split_on sep s
      else (c # hd (split_on sep s)) # tl (split_on sep s))"
  using split_on_nonempty[of sep s]
  by (cases "split_on sep s") (auto simp: split_on_def)

lemma split_on_reference:
  "split_on (\<lambda>c. c = CHR '':'' \<or> c = CHR ''/'') (''eip155:1/erc721:'' @ rest)
     = ''eip155'' # ''1'' # ''erc721'' # split_on (\<lambda>c. c = CHR '':'' \<or> c = CHR ''/'') rest"
  using split_on_nonempty[of "\<lambda>c. c = CHR '':'' \<or> c = CHR ''/''" rest]
  by (cases "split_on (\<lambda>c. c = CHR '':'' \<or> c = CHR ''/'') rest") (simp_all add: split_on_def)

lemma new_URL_reference: "\<exists>u. new_URL (''eip155:1/erc721:'' @ rest) = Some u"
  by (simp add: new_URL_def isSchemeChar_def inClass_def alnum_def toLowerCase_def toLowerCaseChar_def
      specialSchemes_def cutAt_def Let_def split: prod.splits)

lemma reference_nonempty: "prefix ''eip155:1/erc721:'' avatar \<Longrightarrow> avatar \<noteq> []"
  by auto

lemma lookUpAvatar_reaches_text:
  assumes primary: "chainID net = ''1''"
    and named: "fst (lookUpName svc sch addr net True) = Returned (Some name)" "name \<noteq> []"
    and resolver: "getResolver (providers_ethereum (chainService (snd (lookUpName svc sch addr net True)))) name
        = Fulfilled (Some resolver)"
    and owner: "getAddress resolver = Fulfilled a" "sameEVMAddress a addr"
    and reads: "getText resolver ''avatar'' = Fulfilled (Some avatar)" "avatar \<noteq> []"
  shows "lookUpAvatar fetch svc sch addr net =
     lookUpAvatar_text fetch
       ((snd (lookUpName svc sch addr net True))
          \<lparr>calls := calls (snd (lookUpName svc sch addr net True)) @
             [GetResolverCall name, GetAddressCall name, GetTextCall name ''avatar'']\<rparr>)
       (providers_ethereum (chainService (snd (lookUpName svc sch addr net True)))) avatar"
proof -
  obtain svc1 where run: "lookUpName svc sch addr net True = (Returned (Some name), svc1)"
    using named(1) by (cases "lookUpName svc sch addr net True") simp
  have svc1: "snd (lookUpName svc sch addr net True) = svc1"
    by (simp add: run)
  show ?thesis
    using primary named(2) resolver owner reads
    unfolding svc1
    by (simp add: lookUpAvatar_def run lookUpAvatar_named_def Let_def)
qed


lemma lookUpAvatar_text_reference:
  assumes pattern: "prefix ''eip155:1/erc721:'' avatar"
    and uncached: "cachedEIP155AvatarURLs svc (toLowerCase avatar) = None"
  shows "lookUpAvatar_text fetch svc provider avatar =
     (case nth_opt (split_on (\<lambda>c. c = CHR '':'' \<or> c = CHR ''/'') avatar) 4 of
        None \<Rightarrow> (Returned (new_URL avatar), svc)
      | Some nftID \<Rightarrow>
          (case BigInt nftID of
             None \<Rightarrow> (Threw (SyntaxError ''Cannot convert to a BigInt''), svc)
           | Some tokenId \<Rightarrow>
               (case fetch provider
                       (split_on (\<lambda>c. c = CHR '':'' \<or> c = CHR ''/'') avatar ! 3) tokenId of
                  Rejected e \<Rightarrow>
                    (Threw e,
                     svc\<lparr>calls := calls svc @
                       [GetTokenMetadataCall
                          (split_on (\<lambda>c. c = CHR '':'' \<or> c = CHR ''/'') avatar ! 3) tokenId]\<rparr>)
                | Fulfilled metadata \<Rightarrow>
                    (case imageOf metadata of
                       None \<Rightarrow>
                         (Returned (new_URL avatar),
                          svc\<lparr>calls := calls svc @
                            [GetTokenMetadataCall
                               (split_on (\<lambda>c. c = CHR '':'' \<or> c = CHR ''/'') avatar ! 3) tokenId]\<rparr>)
                     | Some img \<Rightarrow>
                         (case new_URL img of
                            None \<Rightarrow>
                              (Threw (TypeError ''Invalid URL''),
                               svc\<lparr>calls := calls svc @
                                 [GetTokenMetadataCall
                                    (split_on (\<lambda>c. c = CHR '':'' \<or> c = CHR ''/'') avatar ! 3) tokenId]\<rparr>)
                          | Some u \<Rightarrow>
                              (Returned (Some u),
                               svc\<lparr>calls := calls svc @
                                 [GetTokenMetadataCall
                                    (split_on (\<lambda>c. c = CHR '':'' \<or> c = CHR ''/'') avatar ! 3) tokenId],
                                   cachedEIP155AvatarURLs :=
                                     (cachedEIP155AvatarURLs svc)(avatar \<mapsto> u)\<rparr>))))))"
proof -
  from pattern obtain rest where rest: "avatar = ''eip155:1/erc721:'' @ rest"
    by (auto simp: prefix_def)
  obtain u where u: "new_URL avatar = Some u"
    using new_URL_reference rest by blast
  have gateway: "gatewayOf avatar = Returned (new_URL avatar)"
    by (simp add: gatewayOf_def u storageGatewayURL_unchanged)
  have long: "3 < length (split_on (\<lambda>c. c = CHR '':'' \<or> c = CHR ''/'') avatar)"
    using split_on_nonempty[of "\<lambda>c. c = CHR '':'' \<or> c = CHR ''/''" rest]
    unfolding rest split_on_reference by (cases "split_on (\<lambda>c. c = CHR '':'' \<or> c = CHR ''/'') rest") simp_all
  then have third: "nth_opt (split_on (\<lambda>c. c = CHR '':'' \<or> c = CHR ''/'') avatar) 3
      = Some (split_on (\<lambda>c. c = CHR '':'' \<or> c = CHR ''/'') avatar ! 3)"
    by (simp add: nth_opt_def)
  show ?thesis
    unfolding lookUpAvatar_text_def Let_def third
    using pattern uncached
    by (simp add: erc721Regex_prefix gateway imageOf_def storageGatewayURL_unchanged
        split: option.splits settled.splits)
qed

lemma lookUpName_resolve_preserves:
  "chainService (snd (lookUpName_resolve svc sch addr net)) = chainService svc"
  "cachedEIP155AvatarURLs (snd (lookUpName_resolve svc sch addr net)) = cachedEIP155AvatarURLs svc"
proof -
  show "chainService (snd (lookUpName_resolve svc sch addr net)) = chainService svc"
  proof (cases "set [0..<length (addressResolvers svc)] \<subseteq> set (completion sch)")
    case True
    then show ?thesis
      by (simp add: lookUpName_resolve_settled split: option.splits)
  next
    case False
    then obtain i where "i < length (addressResolvers svc)" "i \<notin> set (completion sch)"
      using unsettled_position by blast
    then show ?thesis
      by (simp add: lookUpName_resolve_unsettled)
  qed
  show "cachedEIP155AvatarURLs (snd (lookUpName_resolve svc sch addr net)) = cachedEIP155AvatarURLs svc"
  proof (cases "set [0..<length (addressResolvers svc)] \<subseteq> set (completion sch)")
    case True
    then show ?thesis
      by (simp add: lookUpName_resolve_settled split: option.splits)
  next
    case False
    then obtain i where "i < length (addressResolvers svc)" "i \<notin> set (completion sch)"
      using unsettled_position by blast
    then show ?thesis
      by (simp add: lookUpName_resolve_unsettled)
  qed
qed

lemma lookUpName_preserves:
  "chainService (snd (lookUpName svc sch addr net checkCache)) = chainService svc"
  "cachedEIP155AvatarURLs (snd (lookUpName svc sch addr net checkCache)) = cachedEIP155AvatarURLs svc"
  by (simp_all add: lookUpName_def lookUpName_resolve_preserves split: option.splits)

text \<open>
  C6, as the code has it. Take a call of \<open>lookUpAvatar\<close> on the primary network that reads
  an avatar text record matching the ERC-721 pattern which is not in the avatar cache. The
  record always has a token-contract segment (possibly empty), which is not checked, and
  always parses as a URL. When the record has no token-id segment, the call does not
  invoke the token-metadata fetch and returns the record itself as a URL. When the
  token-id segment is not an integer literal, the fetch is not invoked either. When the
  fetch is made and the metadata is absent or has no image, the call returns the record
  itself as a URL. In none of these cases is the result "not found".
\<close>

theorem lookUpAvatar_reference:
  fixes svc :: NameService and sch :: Schedule and addr :: HexString and net :: EVMNetwork
    and name :: DomainName and avatar :: string
  defines "provider \<equiv> providers_ethereum (chainService svc)"
  defines "parts \<equiv> split_on (\<lambda>c. c = CHR '':'' \<or> c = CHR ''/'') avatar"
  defines "asked \<equiv> (snd (lookUpName svc sch addr net True))
      \<lparr>calls := calls (snd (lookUpName svc sch addr net True)) @
         [GetResolverCall name, GetAddressCall name, GetTextCall name ''avatar'']\<rparr>"
  assumes primary: "chainID net = ''1''"
    and named: "fst (lookUpName svc sch addr net True) = Returned (Some name)" "name \<noteq> []"
    and resolver: "getResolver provider name = Fulfilled (Some resolver)"
    and owner: "getAddress resolver = Fulfilled a" "sameEVMAddress a addr"
    and reads: "getText resolver ''avatar'' = Fulfilled (Some avatar)"
    and pattern: "prefix ''eip155:1/erc721:'' avatar"
    and uncached: "cachedEIP155AvatarURLs svc (toLowerCase avatar) = None"
  shows "nth_opt parts 3 \<noteq> None \<and> new_URL avatar \<noteq> None
    \<and> (nth_opt parts 4 = None \<longrightarrow>
          lookUpAvatar fetch svc sch addr net = (Returned (new_URL avatar), asked))
    \<and> (nth_opt parts 4 = Some nftID \<and> BigInt nftID = None \<longrightarrow>
          snd (lookUpAvatar fetch svc sch addr net) = asked)
    \<and> (nth_opt parts 3 = Some erc721Address \<and> nth_opt parts 4 = Some nftID
          \<and> BigInt nftID = Some tokenId
          \<and> fetch provider erc721Address tokenId = Fulfilled metadata
          \<and> imageOf metadata = None \<longrightarrow>
          lookUpAvatar fetch svc sch addr net
            = (Returned (new_URL avatar),
               asked\<lparr>calls := calls asked @ [GetTokenMetadataCall erc721Address tokenId]\<rparr>))"
proof -
  from pattern obtain rest where rest: "avatar = ''eip155:1/erc721:'' @ rest"
    by (auto simp: prefix_def)
  have parsed: "new_URL avatar \<noteq> None"
    using new_URL_reference[of rest] rest by auto
  have long: "3 < length parts"
    using split_on_nonempty[of "\<lambda>c. c = CHR '':'' \<or> c = CHR ''/''" rest]
    unfolding parts_def rest split_on_reference
    by (cases "split_on (\<lambda>c. c = CHR '':'' \<or> c = CHR ''/'') rest") simp_all
  then have third: "nth_opt parts 3 = Some (parts ! 3)"
    by (simp add: nth_opt_def)
  have same_provider:
    "providers_ethereum (chainService (snd (lookUpName svc sch addr net True))) = provider"
    by (simp add: provider_def lookUpName_preserves)
  have stage: "lookUpAvatar fetch svc sch addr net = lookUpAvatar_text fetch asked provider avatar"
    using lookUpAvatar_reaches_text[OF primary named, of resolver a avatar fetch]
      resolver owner reads reference_nonempty[OF pattern]
    by (simp add: same_provider asked_def)
  have "cachedEIP155AvatarURLs asked (toLowerCase avatar) = None"
    using uncached by (simp add: asked_def lookUpName_preserves)
  note shape = lookUpAvatar_text_reference[OF pattern this, of fetch provider, folded parts_def]
  have absent: "nth_opt parts 4 = None \<longrightarrow>
      lookUpAvatar fetch svc sch addr net = (Returned (new_URL avatar), asked)"
    by (simp add: stage shape)
  have unparsable: "nth_opt parts 4 = Some nftID \<and> BigInt nftID = None \<longrightarrow>
      snd (lookUpAvatar fetch svc sch addr net) = asked"
    by (simp add: stage shape)
  have no_image: "nth_opt parts 3 = Some erc721Address \<and> nth_opt parts 4 = Some nftID
          \<and> BigInt nftID = Some tokenId
          \<and> fetch provider erc721Address tokenId = Fulfilled metadata
          \<and> imageOf metadata = None \<longrightarrow>
          lookUpAvatar fetch svc sch addr net
            = (Returned (new_URL avatar),
               asked\<lparr>calls := calls asked @ [GetTokenMetadataCall erc721Address tokenId]\<rparr>)"
    using third by (auto simp: stage shape)
  from third parsed absent unparsable no_image show ?thesis by simp
qed

lemma avatarService_facts:
  "getResolver (providers_ethereum (chainService (avatarService reference))) name
     = Fulfilled (Some (avatarResolver reference))"
  "getAddress (avatarResolver reference) = Fulfilled (Some lowerRouterAddress)"
  "getText (avatarResolver reference) key = Fulfilled (Some reference)"
  "cachedEIP155AvatarURLs (avatarService reference) key = None"
  by (simp_all add: avatarService_def avatarResolver_def NameService_new_def Let_def)

lemma same_owner: "sameEVMAddress (Some lowerRouterAddress) routerAddress"
  by code_simp

text \<open>
  The record \<^verbatim>\<open>eip155:1/erc721:0xabc/7\<close> with a fetch that finds no metadata: the call
  returns the URL of the record.
\<close>

theorem lookUpAvatar_reference_witness:
  "chainID ETHEREUM = ''1''
   \<and> fst (lookUpName (avatarService ''eip155:1/erc721:0xabc/7'') sampleSchedule routerAddress ETHEREUM True)
       = Returned (Some ''router.eth'')
   \<and> ''router.eth'' \<noteq> []
   \<and> getResolver (providers_ethereum (chainService (avatarService ''eip155:1/erc721:0xabc/7''))) ''router.eth''
       = Fulfilled (Some (avatarResolver ''eip155:1/erc721:0xabc/7''))
   \<and> getAddress (avatarResolver ''eip155:1/erc721:0xabc/7'') = Fulfilled (Some lowerRouterAddress)
   \<and> sameEVMAddress (Some lowerRouterAddress) routerAddress
   \<and> getText (avatarResolver ''eip155:1/erc721:0xabc/7'') ''avatar'' = Fulfilled (Some ''eip155:1/erc721:0xabc/7'')
   \<and> prefix ''eip155:1/erc721:'' ''eip155:1/erc721:0xabc/7''
   \<and> cachedEIP155AvatarURLs (avatarService ''eip155:1/erc721:0xabc/7'') (toLowerCase ''eip155:1/erc721:0xabc/7'') = None
   \<and> nth_opt (split_on (\<lambda>c. c = CHR '':'' \<or> c = CHR ''/'') ''eip155:1/erc721:0xabc/7'') 3 = Some ''0xabc''
   \<and> nth_opt (split_on (\<lambda>c. c = CHR '':'' \<or> c = CHR ''/'') ''eip155:1/erc721:0xabc/7'') 4 = Some ''7''
   \<and> BigInt ''7'' = Some 7
   \<and> noMetadata (providers_ethereum (chainService (avatarService ''eip155:1/erc721:0xabc/7''))) ''0xabc'' 7
       = Fulfilled None
   \<and> imageOf None = None
   \<and> fst (lookUpAvatar noMetadata (avatarService ''eip155:1/erc721:0xabc/7'') sampleSchedule routerAddress ETHEREUM)
       = Returned (Some (referenceURL ''1/erc721:0xabc/7''))"
proof -
  let ?ref = "''eip155:1/erc721:0xabc/7''"
  have named: "fst (lookUpName (avatarService ?ref) sampleSchedule routerAddress ETHEREUM True)
       = Returned (Some ''router.eth'')" "''router.eth'' \<noteq> []"
    by code_simp+
  have pattern: "prefix ''eip155:1/erc721:'' ?ref" by code_simp
  have parts: "nth_opt (split_on (\<lambda>c. c = CHR '':'' \<or> c = CHR ''/'') ?ref) 3 = Some ''0xabc''"
    "nth_opt (split_on (\<lambda>c. c = CHR '':'' \<or> c = CHR ''/'') ?ref) 4 = Some ''7''"
    "BigInt ''7'' = Some 7"
    by code_simp+
  have fetched: "noMetadata (providers_ethereum (chainService (avatarService ?ref))) ''0xabc'' 7 = Fulfilled None"
    by (simp add: noMetadata_def)
  have blank: "imageOf None = None" by (simp add: imageOf_def)
  have url: "new_URL ?ref = Some (referenceURL ''1/erc721:0xabc/7'')" by code_simp
  from lookUpAvatar_reference[where fetch = noMetadata and erc721Address = "''0xabc''"
      and nftID = "''7''" and tokenId = 7 and metadata = None,
      OF primary_ETHEREUM named avatarService_facts(1) avatarService_facts(2)
      same_owner avatarService_facts(3) pattern avatarService_facts(4)] parts fetched blank
  have "fst (lookUpAvatar noMetadata (avatarService ?ref) sampleSchedule routerAddress ETHEREUM)
       = Returned (new_URL ?ref)"
    by simp
  then show ?thesis
    using primary_ETHEREUM named avatarService_facts same_owner pattern parts fetched blank
    by (simp add: url)
qed

text \<open>
  The statement of C6 fails. For the record \<^verbatim>\<open>eip155:1/erc721:0xabc\<close>, which has no
  token id, the call returns the URL \<^verbatim>\<open>eip155:1/erc721:0xabc\<close>, not "not found". For
  \<^verbatim>\<open>eip155:1/erc721:0xabc/7\<close> it returns the URL of the record as well, both when the
  metadata is absent and when it has no image. For \<^verbatim>\<open>eip155:1/erc721:0xabc/seven\<close>, whose
  token id is not an integer literal, the call fails with the error of the conversion. For
  \<^verbatim>\<open>eip155:1/erc721:/7\<close>, whose token-contract segment is empty, the fetch is invoked, with
  the empty address.
\<close>

theorem lookUpAvatar_reference_returned:
  "fst (lookUpAvatar noMetadata (avatarService ''eip155:1/erc721:0xabc'') sampleSchedule routerAddress ETHEREUM)
     = Returned (Some (referenceURL ''1/erc721:0xabc''))
   \<and> fst (lookUpAvatar noMetadata (avatarService ''eip155:1/erc721:0xabc'') sampleSchedule routerAddress ETHEREUM)
     \<noteq> Returned None
   \<and> fst (lookUpAvatar noMetadata (avatarService ''eip155:1/erc721:0xabc/7'') sampleSchedule routerAddress ETHEREUM)
     = Returned (Some (referenceURL ''1/erc721:0xabc/7''))
   \<and> fst (lookUpAvatar blankMetadata (avatarService ''eip155:1/erc721:0xabc/7'') sampleSchedule routerAddress ETHEREUM)
     = Returned (Some (referenceURL ''1/erc721:0xabc/7''))
   \<and> fst (lookUpAvatar noMetadata (avatarService ''eip155:1/erc721:0xabc/seven'') sampleSchedule routerAddress ETHEREUM)
     = Threw (SyntaxError ''Cannot convert to a BigInt'')
   \<and> last (calls (snd (lookUpAvatar noMetadata (avatarService ''eip155:1/erc721:/7'') sampleSchedule
                          routerAddress ETHEREUM)))
     = GetTokenMetadataCall [] 7"
  by code_simp

end
